theory Spec2Isabelle
  imports Complex_Main "HOL-Library.Sublist"
begin

section \<open>Exceptions, processes and the outside world\<close>

text \<open>
  The script \<^verbatim>\<open>analyzeRepository.py\<close> talks to the file system and to external tools
  (git, flake8, radon, eslint). Every such call is a field of the record \<open>world\<close>: what
  the call returns, or the exception it raises. All exceptions modelled are subclasses of
  Python's \<^verbatim>\<open>Exception\<close>; \<^verbatim>\<open>KeyboardInterrupt\<close> and \<^verbatim>\<open>SystemExit\<close> are outside the model.
  Python numbers are \<open>int\<close> where the code only produces integers and \<open>real\<close> where it
  divides or multiplies by a float (floating-point rounding error is not modelled).
  Strings are lists of 8-bit characters, the code points below 256; white space and case
  folding are those of Python's \<^verbatim>\<open>str\<close> on these code points. Text with a code point from
  256 on is outside the model.
\<close>

datatype exc_class =
  TimeoutExpired | CalledProcessError | JSONDecodeError | UnicodeDecodeError | OtherException

datatype py_exc = Exc (exc_cls: exc_class) (exc_str: string)

datatype dval = DStr string | DBool bool

record completed_process =
  returncode :: int
  stdout :: string
  stderr :: string

text \<open>The \<^verbatim>\<open>ruleId\<close> of an ESLint message: the key is missing, its value is \<^verbatim>\<open>null\<close>, or a string.\<close>

datatype rule_id = NoRuleId | NullRuleId | RuleId string

record world =
  now :: int
  argparse_out :: "string \<Rightarrow> int + string"
  urlparse_out :: "string \<Rightarrow> py_exc + string \<times> string"
  mkdtemp_out :: "string \<Rightarrow> py_exc + string"
  git_clone_out :: "py_exc + completed_process"
  rmtree_out :: "py_exc + unit"
  rglob_out :: "string \<Rightarrow> py_exc + string list"
  exists_out :: "string \<Rightarrow> py_exc + bool"
  glob_out :: "string \<Rightarrow> string \<Rightarrow> py_exc + string list"
  read_out :: "string \<Rightarrow> string \<Rightarrow> py_exc + string"
  flake8_out :: "py_exc + completed_process"
  radon_out :: "py_exc + completed_process"
  eslint_out :: "py_exc + completed_process"
  radon_json :: "string \<Rightarrow> py_exc + int option list list"
  eslint_json :: "string \<Rightarrow> py_exc + rule_id list list"

text \<open>
  \<open>argparse_out w arg\<close> is what \<^verbatim>\<open>parser.parse_args()\<close> does with a command line whose one
  argument \<open>arg\<close> starts with \<^verbatim>\<open>-\<close>: \<open>Inl\<close> the status with which \<^verbatim>\<open>argparse\<close> ends the
  process (2 after a usage error, 0 after \<^verbatim>\<open>-h\<close>), or \<open>Inr\<close> the value of \<^verbatim>\<open>args.repo_url\<close> when
  it takes the argument as the URL all the same.
  \<open>urlparse_out w url\<close> is \<^verbatim>\<open>urlparse(url)\<close>, its \<^verbatim>\<open>netloc\<close> and its \<^verbatim>\<open>path\<close> (the function raises
  \<^verbatim>\<open>ValueError\<close> on some malformed URLs); \<open>mkdtemp_out w name\<close> is \<^verbatim>\<open>tempfile.mkdtemp(prefix=name)\<close>;
  \<open>rglob_out w pat\<close> is \<^verbatim>\<open>list(Path(repo_path).rglob(pat))\<close>, \<open>exists_out w p\<close> is
  \<^verbatim>\<open>(Path(repo_path) / p).exists()\<close>, \<open>glob_out w d pat\<close> is \<^verbatim>\<open>list((Path(repo_path) / d).glob(pat))\<close>,
  \<open>read_out w p enc\<close> is opening \<open>p\<close> with encoding \<open>enc\<close> and reading it whole.
  \<open>flake8_out\<close>, \<open>radon_out\<close>, \<open>eslint_out\<close> and \<open>git_clone_out\<close> are what
  \<^verbatim>\<open>subprocess.run\<close> gives for the command (before \<^verbatim>\<open>check=True\<close> is applied).
  \<open>radon_json w s\<close> is \<^verbatim>\<open>json.loads(s)\<close> read as radon's report: for each file the list of
  its blocks, each with its \<^verbatim>\<open>complexity\<close> if the key is there. \<open>Inl\<close> with class
  \<open>JSONDecodeError\<close> is a text that is not JSON; \<open>Inl\<close> with another class is a JSON value of
  another shape, on which the loops of the script raise before they assign a result.
  \<open>eslint_json\<close> is the same for ESLint: for each file the \<^verbatim>\<open>ruleId\<close>s of its messages.
\<close>

section \<open>Strings\<close>

text \<open>
  The white space of \<^verbatim>\<open>str.split()\<close>, \<^verbatim>\<open>str.strip()\<close> and \<^verbatim>\<open>str.isspace()\<close>: the space, the
  controls U+0009 to U+000D and U+001C to U+001F, the next line U+0085 and the no-break
  space U+00A0.
\<close>

definition is_space :: "char \<Rightarrow> bool" where
  "is_space c = (c \<in> set [CHR '' '', CHR 0x09, CHR ''\<newline>'', CHR 0x0B, CHR 0x0C, CHR 0x0D,
                          CHR 0x1C, CHR 0x1D, CHR 0x1E, CHR 0x1F, CHR 0x85, CHR 0xA0])"

definition strip :: "string \<Rightarrow> string" where
  "strip s = rev (dropWhile is_space (rev (dropWhile is_space s)))"

text \<open>
  The capital letters below U+0100 and their small letters, in the same order: A to Z, and
  U+00C0 to U+00DE without the multiplication sign U+00D7, each 32 below its small letter.
\<close>

definition upper_letters :: string where
  "upper_letters = ''ABCDEFGHIJKLMNOPQRSTUVWXYZ'' @
     [CHR 0xC0, CHR 0xC1, CHR 0xC2, CHR 0xC3, CHR 0xC4, CHR 0xC5, CHR 0xC6, CHR 0xC7,
      CHR 0xC8, CHR 0xC9, CHR 0xCA, CHR 0xCB, CHR 0xCC, CHR 0xCD, CHR 0xCE, CHR 0xCF,
      CHR 0xD0, CHR 0xD1, CHR 0xD2, CHR 0xD3, CHR 0xD4, CHR 0xD5, CHR 0xD6, CHR 0xD8,
      CHR 0xD9, CHR 0xDA, CHR 0xDB, CHR 0xDC, CHR 0xDD, CHR 0xDE]"

definition lower_letters :: string where
  "lower_letters = ''abcdefghijklmnopqrstuvwxyz'' @
     [CHR 0xE0, CHR 0xE1, CHR 0xE2, CHR 0xE3, CHR 0xE4, CHR 0xE5, CHR 0xE6, CHR 0xE7,
      CHR 0xE8, CHR 0xE9, CHR 0xEA, CHR 0xEB, CHR 0xEC, CHR 0xED, CHR 0xEE, CHR 0xEF,
      CHR 0xF0, CHR 0xF1, CHR 0xF2, CHR 0xF3, CHR 0xF4, CHR 0xF5, CHR 0xF6, CHR 0xF8,
      CHR 0xF9, CHR 0xFA, CHR 0xFB, CHR 0xFC, CHR 0xFD, CHR 0xFE]"

text \<open>\<^verbatim>\<open>s.lower()\<close>, character by character.\<close>

definition lower_char :: "char \<Rightarrow> char" where
  "lower_char c =
     (case map_of (zip upper_letters lower_letters) c of
        Some l \<Rightarrow> l
      | None \<Rightarrow> c)"

definition lower :: "string \<Rightarrow> string" where
  "lower s = map lower_char s"

text \<open>\<^verbatim>\<open>s.strip(c)\<close> for one character.\<close>

definition strip_char :: "char \<Rightarrow> string \<Rightarrow> string" where
  "strip_char c s = rev (dropWhile (\<lambda>x. x = c) (rev (dropWhile (\<lambda>x. x = c) s)))"

text \<open>\<^verbatim>\<open>s.split(c)\<close> for a one-character separator.\<close>

fun split_on :: "char \<Rightarrow> string \<Rightarrow> string list" where
  "split_on c [] = [[]]"
| "split_on c (x # xs) =
     (if x = c then [] # split_on c xs
      else (case split_on c xs of
              [] \<Rightarrow> [[x]]
            | l # ls \<Rightarrow> (x # l) # ls))"

text \<open>\<^verbatim>\<open>sub in s\<close>.\<close>

fun contains :: "string \<Rightarrow> string \<Rightarrow> bool" where
  "contains sub [] = (sub = [])"
| "contains sub (c # cs) = (prefix sub (c # cs) \<or> contains sub cs)"

text \<open>
  The number of maximal runs of characters satisfying \<open>p\<close>: \<^verbatim>\<open>len(re.findall(r'[.!?]+', s))\<close>
  for the sentence marks and \<^verbatim>\<open>len(s.split())\<close> for the characters that are not white space.
  The flag says whether the character before was in a run.
\<close>

fun count_runs :: "(char \<Rightarrow> bool) \<Rightarrow> bool \<Rightarrow> string \<Rightarrow> nat" where
  "count_runs p inrun [] = 0"
| "count_runs p inrun (c # cs) =
     (if p c then (if inrun then 0 else 1) + count_runs p True cs
      else count_runs p False cs)"

text \<open>\<^verbatim>\<open>round(x, 2)\<close>, on exact numbers (a tie is rounded up here, to even in Python).\<close>

definition round2 :: "real \<Rightarrow> real" where
  "round2 x = real_of_int (round (x * 100)) / 100"

text \<open>\<^verbatim>\<open>any((base / f).exists() for f in fs)\<close>: stops at the first file that exists.\<close>

fun any_exists :: "world \<Rightarrow> string list \<Rightarrow> py_exc + bool" where
  "any_exists w [] = Inr False"
| "any_exists w (f # fs) =
     (case exists_out w f of
        Inl e \<Rightarrow> Inl e
      | Inr b \<Rightarrow> if b then Inr True else any_exists w fs)"

section \<open>flake8\<close>

record lint_result =
  score :: int
  issues :: nat
  critical_issues :: nat
  details :: "string \<rightharpoonup> dval"

definition lint_init :: lint_result where
  "lint_init = \<lparr> lint_result.score = 0, issues = 0, critical_issues = 0,
                 lint_result.details = Map.empty \<rparr>"

definition flake8_critical :: "string \<Rightarrow> bool" where
  "flake8_critical line = list_ex (\<lambda>issue. contains issue (lower line)) [''e9'', ''f'', ''e112'', ''e113'']"

definition flake8_lines :: "string \<Rightarrow> string list" where
  "flake8_lines err = filter (\<lambda>line. strip line \<noteq> []) (split_on CHR ''\<newline>'' (strip err))"

text \<open>The score of a run that reported issues: \<^verbatim>\<open>max(0, 80 - min(50, 2 * issues + 5 * critical))\<close>.\<close>

definition flake8_policy :: "nat \<Rightarrow> nat \<Rightarrow> int" where
  "flake8_policy issue_count critical_count =
     (let base_score = 80;
          penalty = min 50 ((int issue_count * 2) + (int critical_count * 5))
      in max 0 (base_score - penalty))"

text \<open>The \<^verbatim>\<open>try\<close> block of \<^verbatim>\<open>run_flake8_analysis\<close>; nothing is assigned before a call that can raise.\<close>

definition flake8_try :: "world \<Rightarrow> py_exc + lint_result" where
  "flake8_try w =
     (case rglob_out w ''*.py'' of
        Inl e \<Rightarrow> Inl e
      | Inr python_files \<Rightarrow>
          if python_files = [] then
            Inr (lint_init\<lparr> lint_result.details := [''message'' \<mapsto> DStr ''No Python files found''] \<rparr>)
          else
            (case flake8_out w of
               Inl e \<Rightarrow> Inl e
             | Inr result \<Rightarrow>
                 if returncode result = 0 then Inr (lint_init\<lparr> lint_result.score := 90 \<rparr>)
                 else
                   (let lines = flake8_lines (stderr result);
                        issue_count = length lines;
                        critical_count = length (filter flake8_critical lines)
                    in Inr (lint_init\<lparr> issues := issue_count, critical_issues := critical_count,
                              lint_result.score := flake8_policy issue_count critical_count \<rparr>))))"

definition run_flake8_analysis :: "world \<Rightarrow> py_exc + lint_result" where
  "run_flake8_analysis w =
     (case flake8_try w of
        Inr results \<Rightarrow> Inr results
      | Inl e \<Rightarrow>
          if exc_cls e = TimeoutExpired then
            Inr (lint_init\<lparr> lint_result.details := [''timeout'' \<mapsto> DBool True], lint_result.score := 0 \<rparr>)
          else
            Inr (lint_init\<lparr> lint_result.details := [''error'' \<mapsto> DStr (exc_str e)], lint_result.score := 0 \<rparr>))"

section \<open>radon\<close>

record radon_result =
  complexity_score :: int
  average_complexity :: real
  complex_functions :: nat
  details :: "string \<rightharpoonup> dval"

definition radon_init :: radon_result where
  "radon_init = \<lparr> complexity_score = 0, average_complexity = 0, complex_functions = 0,
                  radon_result.details = Map.empty \<rparr>"

text \<open>The banding of the average cyclomatic complexity.\<close>

definition complexity_band :: "real \<Rightarrow> int" where
  "complexity_band avg_complexity =
     (if avg_complexity \<le> 5 then 90
      else if avg_complexity \<le> 10 then 70
      else if avg_complexity \<le> 20 then 40
      else 20)"

definition radon_try :: "world \<Rightarrow> py_exc + radon_result" where
  "radon_try w =
     (case rglob_out w ''*.py'' of
        Inl e \<Rightarrow> Inl e
      | Inr python_files \<Rightarrow>
          if python_files = [] then Inr radon_init
          else
            (case radon_out w of
               Inl e \<Rightarrow> Inl e
             | Inr result \<Rightarrow>
                 if returncode result = 0 then
                   (case radon_json w (stdout result) of
                      Inl e \<Rightarrow>
                        if exc_cls e = JSONDecodeError then
                          Inr (radon_init\<lparr> radon_result.details :=
                                 [''error'' \<mapsto> DStr ''Failed to parse radon output''] \<rparr>)
                        else Inl e
                    | Inr complexity_data \<Rightarrow>
                        (let cs = map (\<lambda>func_data. case func_data of None \<Rightarrow> 1 | Some c \<Rightarrow> c)
                                    (concat complexity_data);
                             total_complexity = sum_list cs;
                             function_count = length cs;
                             complex_fn_count = length (filter (\<lambda>c. c > 10) cs)
                         in if function_count > 0 then
                              (let avg_complexity = real_of_int total_complexity / real function_count
                               in Inr (radon_init\<lparr> complexity_score := complexity_band avg_complexity,
                                         average_complexity := round2 avg_complexity,
                                         complex_functions := complex_fn_count \<rparr>))
                            else Inr radon_init))
                 else
                   Inr (radon_init\<lparr> radon_result.details :=
                          [''error'' \<mapsto> DStr ''Radon analysis failed''] \<rparr>)))"

definition run_radon_analysis :: "world \<Rightarrow> py_exc + radon_result" where
  "run_radon_analysis w =
     (case radon_try w of
        Inr results \<Rightarrow> Inr results
      | Inl e \<Rightarrow>
          if exc_cls e = TimeoutExpired then
            Inr (radon_init\<lparr> radon_result.details := [''timeout'' \<mapsto> DBool True] \<rparr>)
          else
            Inr (radon_init\<lparr> radon_result.details := [''error'' \<mapsto> DStr (exc_str e)] \<rparr>))"

section \<open>ESLint\<close>

definition eslint_critical :: "string \<Rightarrow> bool" where
  "eslint_critical severity =
     list_ex (\<lambda>severity_check. contains severity_check severity)
       [''no-unused-vars'', ''error'', ''no-unreachable'']"

text \<open>
  The loop that counts critical messages. \<^verbatim>\<open>message.get('ruleId', '').lower()\<close> raises
  \<^verbatim>\<open>AttributeError\<close> when the value is \<^verbatim>\<open>null\<close>.
\<close>

fun count_critical :: "rule_id list \<Rightarrow> py_exc + nat" where
  "count_critical [] = Inr 0"
| "count_critical (m # ms) =
     (case m of
        NullRuleId \<Rightarrow> Inl (Exc OtherException ''NoneType object has no attribute lower'')
      | NoRuleId \<Rightarrow> (case count_critical ms of Inl e \<Rightarrow> Inl e
                     | Inr n \<Rightarrow> Inr ((if eslint_critical (lower []) then 1 else 0) + n))
      | RuleId s \<Rightarrow> (case count_critical ms of Inl e \<Rightarrow> Inl e
                     | Inr n \<Rightarrow> Inr ((if eslint_critical (lower s) then 1 else 0) + n)))"

definition eslint_policy :: "nat \<Rightarrow> nat \<Rightarrow> int" where
  "eslint_policy total_issues critical_count =
     (let base_score = 80;
          penalty = min 60 ((int total_issues * 1) + (int critical_count * 3))
      in max 0 (base_score - penalty))"

definition eslint_config :: "string list" where
  "eslint_config = [''.eslintrc.json'', ''.eslintrc.js'', ''.eslintrc.yml'', ''.eslintrc.yaml'',
                    ''package.json'']"

text \<open>The four \<^verbatim>\<open>rglob\<close> calls, in the order of the script.\<close>

definition source_files :: "world \<Rightarrow> py_exc + string list" where
  "source_files w =
     (case rglob_out w ''*.js'' of Inl e \<Rightarrow> Inl e | Inr js_files \<Rightarrow>
      case rglob_out w ''*.ts'' of Inl e \<Rightarrow> Inl e | Inr ts_files \<Rightarrow>
      case rglob_out w ''*.jsx'' of Inl e \<Rightarrow> Inl e | Inr jsx_files \<Rightarrow>
      case rglob_out w ''*.tsx'' of Inl e \<Rightarrow> Inl e | Inr tsx_files \<Rightarrow>
        Inr (js_files @ ts_files @ jsx_files @ tsx_files))"

definition eslint_try :: "world \<Rightarrow> py_exc + lint_result" where
  "eslint_try w =
     (case source_files w of
        Inl e \<Rightarrow> Inl e
      | Inr files \<Rightarrow>
          if files = [] then
            Inr (lint_init\<lparr> lint_result.details := [''message'' \<mapsto> DStr ''No JS/TS files found''] \<rparr>)
          else
            (case any_exists w eslint_config of
               Inl e \<Rightarrow> Inl e
             | Inr has_eslint_config \<Rightarrow>
                 if \<not> has_eslint_config then
                   Inr (lint_init\<lparr> lint_result.details :=
                          [''message'' \<mapsto> DStr ''No ESLint configuration found''],
                          lint_result.score := 40 \<rparr>)
                 else
                   (case eslint_out w of
                      Inl e \<Rightarrow> Inl e
                    | Inr result \<Rightarrow>
                        if returncode result = 0 \<or> returncode result = 1 then
                          (case (if stdout result \<noteq> [] then eslint_json w (stdout result) else Inr []) of
                             Inl e \<Rightarrow>
                               if exc_cls e = JSONDecodeError then
                                 Inr (lint_init\<lparr> lint_result.details :=
                                        [''error'' \<mapsto> DStr ''Failed to parse ESLint output''],
                                        lint_result.score := 30 \<rparr>)
                               else Inl e
                           | Inr eslint_data \<Rightarrow>
                               (let total_issues = sum_list (map length eslint_data)
                                in case count_critical (concat eslint_data) of
                                     Inl e \<Rightarrow> Inl e
                                   | Inr critical \<Rightarrow>
                                       Inr (lint_init\<lparr> issues := total_issues,
                                              critical_issues := critical,
                                              lint_result.score := eslint_policy total_issues critical \<rparr>)))
                        else
                          Inr (lint_init\<lparr> lint_result.details :=
                                 [''error'' \<mapsto> DStr ''ESLint execution failed''],
                                 lint_result.score := 20 \<rparr>))))"

definition run_eslint_analysis :: "world \<Rightarrow> py_exc + lint_result" where
  "run_eslint_analysis w =
     (case eslint_try w of
        Inr results \<Rightarrow> Inr results
      | Inl e \<Rightarrow>
          if exc_cls e = TimeoutExpired then
            Inr (lint_init\<lparr> lint_result.details := [''timeout'' \<mapsto> DBool True], lint_result.score := 0 \<rparr>)
          else
            Inr (lint_init\<lparr> lint_result.details := [''error'' \<mapsto> DStr (exc_str e)], lint_result.score := 0 \<rparr>))"

section \<open>Documentation\<close>

record doc_result =
  score :: real
  readme_length :: nat
  has_code_examples :: bool
  has_installation :: bool
  has_contributing :: bool
  readability_score :: int
  details :: "string \<rightharpoonup> dval"

definition doc_init :: doc_result where
  "doc_init = \<lparr> doc_result.score = 0, readme_length = 0, has_code_examples = False,
                has_installation = False, has_contributing = False, readability_score = 0,
                doc_result.details = Map.empty \<rparr>"

definition readme_files :: "string list" where
  "readme_files = [''README.md'', ''README.rst'', ''README.txt'', ''readme.md'', ''Readme.md'',
                   ''readme.txt'', ''README'']"

text \<open>
  The loop over the candidate names. A file that exists is read as UTF-8, then as Latin-1
  when that raises \<^verbatim>\<open>UnicodeDecodeError\<close>; the first text read ends the loop, also when it
  is empty. Any other exception leaves the loop and the \<^verbatim>\<open>try\<close> block.
\<close>

fun read_readme :: "world \<Rightarrow> string list \<Rightarrow> py_exc + string option" where
  "read_readme w [] = Inr None"
| "read_readme w (readme_file # fs) =
     (case exists_out w readme_file of
        Inl e \<Rightarrow> Inl e
      | Inr b \<Rightarrow>
          if \<not> b then read_readme w fs
          else
            (case read_out w readme_file ''utf-8'' of
               Inr readme_content \<Rightarrow> Inr (Some readme_content)
             | Inl e \<Rightarrow>
                 if exc_cls e = UnicodeDecodeError then
                   (case read_out w readme_file ''latin-1'' of
                      Inr readme_content \<Rightarrow> Inr (Some readme_content)
                    | Inl e' \<Rightarrow> if exc_cls e' = UnicodeDecodeError then read_readme w fs else Inl e')
                 else Inl e))"

text \<open>
  \<^verbatim>\<open>len(re.findall(r'#{1,3}.*kw', content_lower)) > 0\<close> for a keyword \<open>kw\<close> without
  \<^verbatim>\<open>#\<close> or line break: \<^verbatim>\<open>.\<close> does not match a line break, so a match lies in one line, and
  it exists iff the keyword occurs after the first \<^verbatim>\<open>#\<close> of some line.
\<close>

definition heading_mentions :: "string \<Rightarrow> string \<Rightarrow> bool" where
  "heading_mentions kw content_lower =
     list_ex (\<lambda>line. case dropWhile (\<lambda>c. c \<noteq> CHR ''#'') line of
                       [] \<Rightarrow> False
                     | h # rest \<Rightarrow> contains kw rest)
       (split_on CHR ''\<newline>'' content_lower)"

text \<open>The rest of \<open>s\<close> after the first occurrence of \<open>sub\<close>.\<close>

fun after_first :: "string \<Rightarrow> string \<Rightarrow> string option" where
  "after_first sub [] = (if sub = [] then Some [] else None)"
| "after_first sub (c # cs) =
     (if prefix sub (c # cs) then Some (drop (length sub) (c # cs)) else after_first sub cs)"

lemma after_first_length: "after_first sub s = Some r \<Longrightarrow> length r + length sub \<le> length s"
proof (induction s)
  case Nil
  then show ?case by (simp split: if_splits)
next
  case (Cons c cs)
  show ?case
  proof (cases "prefix sub (c # cs)")
    case True
    then have "length sub \<le> length (c # cs)" by (rule prefix_length_le)
    with True Cons.prems show ?thesis by auto
  next
    case False
    with Cons show ?thesis by fastforce
  qed
qed

text \<open>
  \<^verbatim>\<open>len(re.findall(r'```[\s\S]*?```', s))\<close>: the matches do not overlap, each runs from a
  fence to the next fence after it.
\<close>

function count_fenced :: "string \<Rightarrow> nat" where
  "count_fenced s =
     (case after_first ''```'' s of
        None \<Rightarrow> 0
      | Some r \<Rightarrow>
          (case after_first ''```'' r of
             None \<Rightarrow> 0
           | Some r' \<Rightarrow> Suc (count_fenced r')))"
  by pat_completeness auto
termination
proof (relation "measure length")
  show "wf (measure length)" by simp
next
  fix s r r'
  assume "after_first ''```'' s = Some r" and "after_first ''```'' r = Some r'"
  then have "length r' + 3 \<le> length r" and "length r + 3 \<le> length s"
    using after_first_length by fastforce+
  then show "(r', s) \<in> measure length" by simp
qed

declare count_fenced.simps [simp del]

definition readability_band :: "real \<Rightarrow> int" where
  "readability_band avg_sentence_length =
     (if avg_sentence_length \<le> 15 then 90
      else if avg_sentence_length \<le> 25 then 70
      else if avg_sentence_length \<le> 40 then 50
      else 30)"

definition sentences_of :: "string \<Rightarrow> nat" where
  "sentences_of readme_content = count_runs (\<lambda>c. c \<in> set ''.!?'') False readme_content"

definition words_of :: "string \<Rightarrow> nat" where
  "words_of readme_content = count_runs (\<lambda>c. \<not> is_space c) False readme_content"

text \<open>The part of \<^verbatim>\<open>analyze_documentation\<close> after a README with some text was read.\<close>

definition score_readme :: "string \<Rightarrow> doc_result" where
  "score_readme readme_content =
     (let content_lower = lower readme_content;
          installation = heading_mentions ''instal'' content_lower;
          usage = (heading_mentions ''usage'' content_lower \<or> heading_mentions ''use'' content_lower);
          contributing = heading_mentions ''contribut'' content_lower;
          license = heading_mentions ''licens'' content_lower;
          code_examples = count_fenced readme_content;
          sentences = sentences_of readme_content;
          words = words_of readme_content;
          avg_sentence_length = real words / real (max 1 sentences);
          readability = readability_band avg_sentence_length;
          base_score = 40 + (if installation then 15 else 0) + (if usage then 10 else 0)
                     + (if contributing then 10 else 0) + (if code_examples > 0 then 15 else 0)
                     + (if license then 10 else (0::int));
          readability_bonus = (real_of_int readability - 50) / 2
      in doc_init\<lparr> readme_length := length readme_content,
                   has_installation := installation,
                   has_contributing := contributing,
                   has_code_examples := (code_examples > 0),
                   readability_score := readability,
                   doc_result.score := max 0 (min 100 (real_of_int base_score + readability_bonus)) \<rparr>)"

definition doc_try :: "world \<Rightarrow> py_exc + doc_result" where
  "doc_try w =
     (case read_readme w readme_files of
        Inl e \<Rightarrow> Inl e
      | Inr found \<Rightarrow>
          (case found of
             None \<Rightarrow> Inr (doc_init\<lparr> doc_result.details := [''message'' \<mapsto> DStr ''No README file found''] \<rparr>)
           | Some readme_content \<Rightarrow>
               if readme_content = [] then
                 Inr (doc_init\<lparr> doc_result.details := [''message'' \<mapsto> DStr ''No README file found''] \<rparr>)
               else Inr (score_readme readme_content)))"

definition analyze_documentation :: "world \<Rightarrow> py_exc + doc_result" where
  "analyze_documentation w =
     (case doc_try w of
        Inr results \<Rightarrow> Inr results
      | Inl e \<Rightarrow> Inr (doc_init\<lparr> doc_result.details := [''error'' \<mapsto> DStr (exc_str e)],
                                 doc_result.score := 10 \<rparr>))"

section \<open>Dependencies and security\<close>

text \<open>
  Both analyzers fill a dictionary with a score, one flag per marker file and details.
  Their \<^verbatim>\<open>try\<close> blocks assign while they go, so the model returns the exception raised
  (if any) together with the dictionary as it was at that moment.
\<close>

record presence_result =
  score :: int
  flags :: "string \<rightharpoonup> bool"
  details :: "string \<rightharpoonup> dval"

text \<open>
  \<^verbatim>\<open>for key, file_path in files.items(): results[key] = file_path.exists();
  if file_path.exists(): results['score'] += points\<close>
\<close>

fun flag_loop ::
  "world \<Rightarrow> int \<Rightarrow> (string \<times> string) list \<Rightarrow> presence_result \<Rightarrow> py_exc option \<times> presence_result"
where
  "flag_loop w points [] results = (None, results)"
| "flag_loop w points ((key, file_path) # rest) results =
     (case exists_out w file_path of
        Inl e \<Rightarrow> (Some e, results)
      | Inr b \<Rightarrow>
          flag_loop w points rest
            (results\<lparr> flags := (flags results)(key \<mapsto> b),
                      presence_result.score :=
                        presence_result.score results + (if b then points else 0) \<rparr>))"

definition dep_init :: presence_result where
  "dep_init = \<lparr> presence_result.score = 0,
                flags = [''has_package_json'' \<mapsto> False, ''has_requirements_txt'' \<mapsto> False,
                         ''has_pipfile'' \<mapsto> False, ''has_setup_py'' \<mapsto> False,
                         ''has_cargo_toml'' \<mapsto> False, ''has_go_mod'' \<mapsto> False],
                presence_result.details = Map.empty \<rparr>"

definition dependency_files :: "(string \<times> string) list" where
  "dependency_files =
     [(''has_package_json'', ''package.json''), (''has_requirements_txt'', ''requirements.txt''),
      (''has_pipfile'', ''Pipfile''), (''has_setup_py'', ''setup.py''),
      (''has_cargo_toml'', ''Cargo.toml''), (''has_go_mod'', ''go.mod'')]"

definition lock_files :: "string list" where
  "lock_files = [''package-lock.json'', ''yarn.lock'', ''Pipfile.lock'', ''Cargo.lock'', ''go.sum'',
                 ''poetry.lock'']"

definition dep_security_files :: "string list" where
  "dep_security_files = [''.snyk'', ''security.md'', ''.github/FUNDING.yml'']"

definition dep_try :: "world \<Rightarrow> py_exc option \<times> presence_result" where
  "dep_try w =
     (case flag_loop w 15 dependency_files dep_init of
        (Some e, r) \<Rightarrow> (Some e, r)
      | (None, r1) \<Rightarrow>
          (case any_exists w lock_files of
             Inl e \<Rightarrow> (Some e, r1)
           | Inr has_lock_files \<Rightarrow>
               (let r2 = (if has_lock_files then
                            r1\<lparr> presence_result.score := presence_result.score r1 + 20,
                                presence_result.details :=
                                  (presence_result.details r1)(''has_lockfiles'' \<mapsto> DBool True) \<rparr>
                          else r1)
                in case any_exists w dep_security_files of
                     Inl e \<Rightarrow> (Some e, r2)
                   | Inr has_security_config \<Rightarrow>
                       (None,
                        if has_security_config then
                          r2\<lparr> presence_result.score := presence_result.score r2 + 10,
                              presence_result.details :=
                                (presence_result.details r2)(''has_security_config'' \<mapsto> DBool True) \<rparr>
                        else r2))))"

definition analyze_dependencies :: "world \<Rightarrow> py_exc + presence_result" where
  "analyze_dependencies w =
     (let results =
            (case dep_try w of
               (None, r) \<Rightarrow> r
             | (Some e, r) \<Rightarrow>
                 r\<lparr> presence_result.details := (presence_result.details r)(''error'' \<mapsto> DStr (exc_str e)),
                     presence_result.score := 0 \<rparr>)
      in Inr (results\<lparr> presence_result.score := min 100 (presence_result.score results) \<rparr>))"

definition sec_init :: presence_result where
  "sec_init = \<lparr> presence_result.score = 0,
                flags = [''has_security_md'' \<mapsto> False, ''has_github_security_policy'' \<mapsto> False,
                         ''has_dependabot_config'' \<mapsto> False, ''has_codeql_config'' \<mapsto> False],
                presence_result.details = Map.empty \<rparr>"

definition security_files :: "(string \<times> string) list" where
  "security_files =
     [(''has_security_md'', ''SECURITY.md''), (''has_github_security_policy'', ''.github/SECURITY.md'')]"

text \<open>
  The loop over the workflow files. A file that cannot be read is skipped
  (\<^verbatim>\<open>except Exception: continue\<close>); every file that mentions a keyword adds 15 again.
\<close>

fun workflow_loop :: "world \<Rightarrow> string list \<Rightarrow> presence_result \<Rightarrow> presence_result" where
  "workflow_loop w [] results = results"
| "workflow_loop w (workflow_file # rest) results =
     (case read_out w workflow_file ''utf-8'' of
        Inl e \<Rightarrow> workflow_loop w rest results
      | Inr text \<Rightarrow>
          (let content = lower text;
               r1 = (if contains ''dependabot'' content \<or> contains ''dependabot config'' content then
                       results\<lparr> flags := (flags results)(''has_dependabot_config'' \<mapsto> True),
                                 presence_result.score := presence_result.score results + 15 \<rparr>
                     else results);
               r2 = (if contains ''codeql'' content \<or> contains ''security-events'' content then
                       r1\<lparr> flags := (flags r1)(''has_codeql_config'' \<mapsto> True),
                            presence_result.score := presence_result.score r1 + 15 \<rparr>
                     else r1)
           in workflow_loop w rest r2))"

text \<open>\<^verbatim>\<open>if results['score'] == 0: results['score'] = 30\<close>\<close>

definition base_security :: "presence_result \<Rightarrow> presence_result" where
  "base_security results =
     (if presence_result.score results = 0 then results\<lparr> presence_result.score := 30 \<rparr> else results)"

definition sec_try :: "world \<Rightarrow> py_exc option \<times> presence_result" where
  "sec_try w =
     (case flag_loop w 20 security_files sec_init of
        (Some e, r) \<Rightarrow> (Some e, r)
      | (None, r1) \<Rightarrow>
          (case exists_out w ''.github/workflows'' of
             Inl e \<Rightarrow> (Some e, r1)
           | Inr workflow_dir_exists \<Rightarrow>
               if workflow_dir_exists then
                 (case glob_out w ''.github/workflows'' ''*.yml'' of
                    Inl e \<Rightarrow> (Some e, r1)
                  | Inr yml \<Rightarrow>
                      (case glob_out w ''.github/workflows'' ''*.yaml'' of
                         Inl e \<Rightarrow> (Some e, r1)
                       | Inr yaml \<Rightarrow> (None, base_security (workflow_loop w (yml @ yaml) r1))))
               else (None, base_security r1)))"

definition analyze_security :: "world \<Rightarrow> py_exc + presence_result" where
  "analyze_security w =
     (case sec_try w of
        (None, r) \<Rightarrow> Inr r
      | (Some e, r) \<Rightarrow>
          Inr (r\<lparr> presence_result.details := (presence_result.details r)(''error'' \<mapsto> DStr (exc_str e)),
                   presence_result.score := 10 \<rparr>))"

section \<open>The pipeline\<close>

record aggregate_scores =
  code_quality_score :: real
  documentation_score :: real
  security_score :: int
  dependency_score :: int

text \<open>
  \<^verbatim>\<open>self.analysis_results\<close>. A category that is still the empty dictionary is \<open>None\<close>;
  \<open>cq_flake8\<close> and \<open>cq_eslint\<close> are the two entries of \<^verbatim>\<open>code_quality\<close>.
\<close>

record report =
  repository :: string
  timestamp :: int
  cq_flake8 :: "lint_result option"
  cq_eslint :: "lint_result option"
  documentation :: "doc_result option"
  security :: "presence_result option"
  dependencies :: "presence_result option"
  complexity :: "radon_result option"
  errors :: "string list"
  warnings :: "string list"
  aggregate :: "aggregate_scores option"

text \<open>
  The analyzer object together with the part of the file system it changes: \<open>temp_dirs\<close>
  are the directories made by \<^verbatim>\<open>tempfile.mkdtemp\<close> that exist.
\<close>

record run_state =
  repo_url :: string
  local_path :: string
  analysis_results :: report
  temp_dirs :: "string set"

text \<open>
  \<^verbatim>\<open>_get_repo_name_from_url\<close>: for a GitHub URL whose path has at least two parts the last
  two, joined by an underscore. \<^verbatim>\<open>urlparse\<close> is not inside a \<^verbatim>\<open>try\<close>.
\<close>

definition get_repo_name_from_url :: "world \<Rightarrow> string \<Rightarrow> py_exc + string" where
  "get_repo_name_from_url w url =
     (case urlparse_out w url of
        Inl e \<Rightarrow> Inl e
      | Inr (netloc, path) \<Rightarrow>
          if contains ''github.com'' netloc then
            (let path_parts = split_on CHR ''/'' (strip_char CHR ''/'' path)
             in if length path_parts \<ge> 2 then
                  Inr (path_parts ! (length path_parts - 2) @ ''_'' @ last path_parts)
                else Inr ''unknown_repository'')
          else Inr ''unknown_repository'')"

text \<open>The dictionary \<^verbatim>\<open>analysis_results\<close> as \<^verbatim>\<open>__init__\<close> makes it.\<close>

definition initial_report :: "string \<Rightarrow> world \<Rightarrow> report" where
  "initial_report url w =
     \<lparr> repository = url, timestamp = now w, cq_flake8 = None, cq_eslint = None,
       documentation = None, security = None, dependencies = None, complexity = None,
       errors = [], warnings = [], aggregate = None \<rparr>"

text \<open>\<^verbatim>\<open>RepositoryAnalyzer(repo_url)\<close>, with no \<^verbatim>\<open>local_path\<close> given, as \<^verbatim>\<open>main\<close> calls it.\<close>

definition analyzer_init :: "string \<Rightarrow> world \<Rightarrow> py_exc + run_state" where
  "analyzer_init url w =
     (case get_repo_name_from_url w url of
        Inl e \<Rightarrow> Inl e
      | Inr name \<Rightarrow>
          Inr \<lparr> repo_url = url, local_path = name, analysis_results = initial_report url w,
                temp_dirs = {} \<rparr>)"

definition add_error :: "string \<Rightarrow> run_state \<Rightarrow> run_state" where
  "add_error msg st =
     st\<lparr> analysis_results := (analysis_results st)\<lparr> errors := errors (analysis_results st) @ [msg] \<rparr> \<rparr>"

definition add_warning :: "string \<Rightarrow> run_state \<Rightarrow> run_state" where
  "add_warning msg st =
     st\<lparr> analysis_results := (analysis_results st)\<lparr> warnings := warnings (analysis_results st) @ [msg] \<rparr> \<rparr>"

text \<open>The three \<^verbatim>\<open>except\<close> clauses of \<^verbatim>\<open>clone_repository\<close>.\<close>

definition clone_error :: "py_exc \<Rightarrow> string" where
  "clone_error e =
     (if exc_cls e = CalledProcessError then ''Failed to clone repository: '' @ exc_str e
      else if exc_cls e = TimeoutExpired then ''Repository cloning timed out''
      else ''Unexpected error during clone: '' @ exc_str e)"

text \<open>
  \<^verbatim>\<open>clone_repository\<close>: the directory is made first, then git runs with \<^verbatim>\<open>check=True\<close>, which
  raises \<^verbatim>\<open>CalledProcessError\<close> on a non-zero exit status. Every handler returns \<^verbatim>\<open>None\<close>.
\<close>

definition clone_repository :: "world \<Rightarrow> run_state \<Rightarrow> run_state \<times> string option" where
  "clone_repository w st =
     (case mkdtemp_out w (local_path st) of
        Inl e \<Rightarrow> (add_error (clone_error e) st, None)
      | Inr temp_dir \<Rightarrow>
          (let st1 = st\<lparr> temp_dirs := insert temp_dir (temp_dirs st) \<rparr>
           in case git_clone_out w of
                Inl e \<Rightarrow> (add_error (clone_error e) st1, None)
              | Inr result \<Rightarrow>
                  if returncode result \<noteq> 0 then
                    (add_error (clone_error (Exc CalledProcessError
                        ''Command git clone returned non-zero exit status'')) st1, None)
                  else (st1, Some temp_dir)))"

text \<open>The weighted average of \<^verbatim>\<open>_calculate_aggregate_scores\<close>.\<close>

definition aggregate_code_score :: "int \<Rightarrow> int \<Rightarrow> int \<Rightarrow> real" where
  "aggregate_code_score flake8_score eslint_score radon_score =
     (let w_flake8 = (if flake8_score > 0 then 0.4 else 0);
          w_eslint = (if eslint_score > 0 then 0.4 else 0);
          w_complexity = (if radon_score > 0 then 0.2 else 0);
          total_weight = w_flake8 + w_eslint + w_complexity
      in if total_weight > 0 then
           ((real_of_int flake8_score * w_flake8) + (real_of_int eslint_score * w_eslint)
            + (real_of_int radon_score * w_complexity)) / total_weight
         else 50)"

definition calculate_aggregate_scores :: "report \<Rightarrow> report" where
  "calculate_aggregate_scores rep =
     (let flake8_score = (case cq_flake8 rep of None \<Rightarrow> 0 | Some r \<Rightarrow> lint_result.score r);
          eslint_score = (case cq_eslint rep of None \<Rightarrow> 0 | Some r \<Rightarrow> lint_result.score r);
          radon_score = (case complexity rep of None \<Rightarrow> 0 | Some r \<Rightarrow> complexity_score r)
      in rep\<lparr> aggregate := Some
           \<lparr> code_quality_score = round2 (aggregate_code_score flake8_score eslint_score radon_score),
             documentation_score = (case documentation rep of None \<Rightarrow> 0 | Some r \<Rightarrow> doc_result.score r),
             security_score = (case security rep of None \<Rightarrow> 0 | Some r \<Rightarrow> presence_result.score r),
             dependency_score = (case dependencies rep of None \<Rightarrow> 0 | Some r \<Rightarrow> presence_result.score r) \<rparr> \<rparr>)"

text \<open>
  The \<^verbatim>\<open>try\<close> block of \<^verbatim>\<open>run_analysis\<close> after the clone: the six analyzers in the order of
  the script, then the aggregate. An analyzer that raised would end the block there.
\<close>

definition run_analyzers :: "world \<Rightarrow> report \<Rightarrow> py_exc option \<times> report" where
  "run_analyzers w rep =
     (case run_flake8_analysis w of Inl e \<Rightarrow> (Some e, rep) | Inr r1 \<Rightarrow>
      let rep1 = rep\<lparr> cq_flake8 := Some r1 \<rparr> in
      case run_radon_analysis w of Inl e \<Rightarrow> (Some e, rep1) | Inr r2 \<Rightarrow>
      let rep2 = rep1\<lparr> complexity := Some r2 \<rparr> in
      case run_eslint_analysis w of Inl e \<Rightarrow> (Some e, rep2) | Inr r3 \<Rightarrow>
      let rep3 = rep2\<lparr> cq_eslint := Some r3 \<rparr> in
      case analyze_documentation w of Inl e \<Rightarrow> (Some e, rep3) | Inr r4 \<Rightarrow>
      let rep4 = rep3\<lparr> documentation := Some r4 \<rparr> in
      case analyze_dependencies w of Inl e \<Rightarrow> (Some e, rep4) | Inr r5 \<Rightarrow>
      let rep5 = rep4\<lparr> dependencies := Some r5 \<rparr> in
      case analyze_security w of Inl e \<Rightarrow> (Some e, rep5) | Inr r6 \<Rightarrow>
      let rep6 = rep5\<lparr> security := Some r6 \<rparr> in
        (None, calculate_aggregate_scores rep6))"

text \<open>The \<^verbatim>\<open>finally\<close> block of \<^verbatim>\<open>run_analysis\<close>.\<close>

definition cleanup :: "world \<Rightarrow> string option \<Rightarrow> run_state \<Rightarrow> run_state" where
  "cleanup w repo_path st =
     (case repo_path of
        None \<Rightarrow> st
      | Some p \<Rightarrow>
          if p \<noteq> [] \<and> p \<in> temp_dirs st then
            (case rmtree_out w of
               Inr u \<Rightarrow> st\<lparr> temp_dirs := temp_dirs st - {p} \<rparr>
             | Inl e \<Rightarrow> add_warning (''Failed to cleanup '' @ p @ '': '' @ exc_str e) st)
          else st)"

definition run_analysis :: "world \<Rightarrow> run_state \<Rightarrow> run_state" where
  "run_analysis w st =
     (case clone_repository w st of
        (st1, repo_path) \<Rightarrow>
          if repo_path = None \<or> repo_path = Some [] then cleanup w repo_path st1
          else
            (case run_analyzers w (analysis_results st1) of
               (None, rep) \<Rightarrow> cleanup w repo_path (st1\<lparr> analysis_results := rep \<rparr>)
             | (Some e, rep) \<Rightarrow>
                 cleanup w repo_path
                   (add_error (''Analysis failed: '' @ exc_str e) (st1\<lparr> analysis_results := rep \<rparr>))))"

text \<open>
  \<^verbatim>\<open>main\<close> for a command line with one argument: the exit status, the report written to
  the output (if any) and the temporary directories left behind. When \<^verbatim>\<open>argparse\<close> ends the
  process nothing else runs. An exception that nothing catches (here only the one of
  \<^verbatim>\<open>urlparse\<close>) ends the process with status 1.
\<close>

record main_outcome =
  exit_status :: int
  written :: "report option"
  left_behind :: "string set"

text \<open>
  \<^verbatim>\<open>parser.parse_args()\<close> for a command line with one argument. An argument that does not
  start with \<^verbatim>\<open>-\<close> (the empty one too) is the positional \<^verbatim>\<open>repo_url\<close>, and the output is the
  standard output; what happens to any other argument is left to \<open>argparse_out\<close>.
\<close>

definition parse_args :: "world \<Rightarrow> string \<Rightarrow> int + string" where
  "parse_args w arg = (if prefix ''-'' arg then argparse_out w arg else Inr arg)"

text \<open>The check of the URL: \<^verbatim>\<open>'github.com' in url or url.startswith('https://')\<close>.\<close>

definition valid_repo_url :: "string \<Rightarrow> bool" where
  "valid_repo_url url = (contains ''github.com'' url \<or> prefix ''https://'' url)"

definition main :: "string \<Rightarrow> world \<Rightarrow> main_outcome" where
  "main arg w =
     (case parse_args w arg of
        Inl status \<Rightarrow> \<lparr> exit_status = status, written = None, left_behind = {} \<rparr>
      | Inr url \<Rightarrow>
          if \<not> valid_repo_url url then
            \<lparr> exit_status = 1, written = None, left_behind = {} \<rparr>
          else
            (case analyzer_init url w of
               Inl e \<Rightarrow> \<lparr> exit_status = 1, written = None, left_behind = {} \<rparr>
             | Inr analyzer \<Rightarrow>
                 (let st = run_analysis w analyzer
                  in \<lparr> exit_status = 0, written = Some (analysis_results st),
                       left_behind = temp_dirs st \<rparr>)))"

section \<open>Sample worlds\<close>

text \<open>
  Concrete worlds on which the theorems below are evaluated. \<open>empty_world\<close> is a repository
  with no files at all, whose clone and whose tools succeed; of the arguments that start
  with \<^verbatim>\<open>-\<close> its \<^verbatim>\<open>argparse\<close> knows the help options and the single \<^verbatim>\<open>-\<close>, and refuses the rest.
\<close>

definition sample_url :: string where
  "sample_url = ''https://github.com/owner/repo''"

definition ok_process :: completed_process where
  "ok_process = \<lparr> returncode = 0, stdout = [], stderr = [] \<rparr>"

definition empty_world :: world where
  "empty_world =
     \<lparr> now = 0,
       argparse_out = (\<lambda>arg. if arg = ''-h'' \<or> arg = ''--help'' then Inl 0
                            else if arg = ''-'' then Inr arg else Inl 2),
       urlparse_out = (\<lambda>url. if url = sample_url then Inr (''github.com'', ''/owner/repo'')
                            else Inr ([], url)),
       mkdtemp_out = (\<lambda>name. Inr (''/tmp/'' @ name @ ''0'')),
       git_clone_out = Inr ok_process,
       rmtree_out = Inr (),
       rglob_out = (\<lambda>pat. Inr []),
       exists_out = (\<lambda>p. Inr False),
       glob_out = (\<lambda>d pat. Inr []),
       read_out = (\<lambda>p enc. Inl (Exc OtherException ''No such file or directory'')),
       flake8_out = Inr ok_process,
       radon_out = Inr ok_process,
       eslint_out = Inr ok_process,
       radon_json = (\<lambda>s. Inr []),
       eslint_json = (\<lambda>s. Inr []) \<rparr>"

definition python_world :: world where
  "python_world =
     empty_world\<lparr> rglob_out := (\<lambda>pat. if pat = ''*.py'' then Inr [''app.py''] else Inr []),
                   flake8_out := Inr \<lparr> returncode = 1, stdout = [],
                                      stderr = ''app.py:1:1: F401 unused import\<newline>1\<newline>'' \<rparr> \<rparr>"

definition failing_world :: world where
  "failing_world =
     empty_world\<lparr>
       rglob_out := (\<lambda>pat. if pat = ''*.py'' then Inr [''app.py'']
                           else if pat = ''*.js'' then Inr [''index.js''] else Inr []),
       exists_out := (\<lambda>p. Inr (p = ''package.json'')),
       flake8_out := Inl (Exc TimeoutExpired ''Command flake8 timed out after 120 seconds''),
       radon_out := Inl (Exc OtherException ''No such file or directory: radon''),
       eslint_out := Inr \<lparr> returncode = 1, stdout = ''Oops'', stderr = [] \<rparr>,
       eslint_json := (\<lambda>s. Inl (Exc JSONDecodeError ''Expecting value'')) \<rparr>"

text \<open>The analyzer object that \<^verbatim>\<open>__init__\<close> makes for \<open>sample_url\<close>.\<close>

definition sample_state :: "world \<Rightarrow> run_state" where
  "sample_state w =
     \<lparr> repo_url = sample_url, local_path = ''owner_repo'',
       analysis_results = initial_report sample_url w, temp_dirs = {} \<rparr>"

definition failing_report :: report where
  "failing_report = analysis_results (run_analysis failing_world (sample_state failing_world))"

definition ci_world :: world where
  "ci_world =
     empty_world\<lparr>
       exists_out := (\<lambda>p. Inr (p = ''.github/workflows'')),
       glob_out := (\<lambda>d pat. if d = ''.github/workflows'' \<and> pat = ''*.yml''
                             then Inr [''.github/workflows/ci.yml''] else Inr []),
       read_out := (\<lambda>p enc. if p = ''.github/workflows/ci.yml'' then Inr ''name: CI''
                             else Inl (Exc OtherException ''No such file or directory'')) \<rparr>"

text \<open>
  The scenario of the empty repository, in terms of what the analyzers look at: no Python
  and no JS/TS sources, none of the README names, none of the files the dependency analyzer
  checks, neither security policy, and no workflow that mentions a security keyword.
\<close>

definition quiet_workflow :: "world \<Rightarrow> string \<Rightarrow> bool" where
  "quiet_workflow w f =
     (case read_out w f ''utf-8'' of
        Inl e \<Rightarrow> True
      | Inr text \<Rightarrow>
          (let content = lower text
           in \<not> (contains ''dependabot'' content \<or> contains ''dependabot config'' content)
              \<and> \<not> (contains ''codeql'' content \<or> contains ''security-events'' content)))"

definition no_security_workflows :: "world \<Rightarrow> bool" where
  "no_security_workflows w =
     (case exists_out w ''.github/workflows'' of
        Inl e \<Rightarrow> False
      | Inr b \<Rightarrow>
          if b then
            (case glob_out w ''.github/workflows'' ''*.yml'' of
               Inl e \<Rightarrow> False
             | Inr yml \<Rightarrow>
                 (case glob_out w ''.github/workflows'' ''*.yaml'' of
                    Inl e \<Rightarrow> False
                  | Inr yaml \<Rightarrow> list_all (quiet_workflow w) (yml @ yaml)))
          else True)"

definition bare_workspace :: "world \<Rightarrow> bool" where
  "bare_workspace w =
     (rglob_out w ''*.py'' = Inr []
      \<and> list_all (\<lambda>pat. rglob_out w pat = Inr []) [''*.js'', ''*.ts'', ''*.jsx'', ''*.tsx'']
      \<and> list_all (\<lambda>f. exists_out w f = Inr False)
           (readme_files @ map snd dependency_files @ lock_files @ dep_security_files
            @ map snd security_files)
      \<and> no_security_workflows w)"

definition clone_fail_world :: world where
  "clone_fail_world =
     empty_world\<lparr> git_clone_out := Inr \<lparr> returncode = 128, stdout = [],
                                          stderr = ''fatal: repository not found'' \<rparr> \<rparr>"

definition clone_timeout_world :: world where
  "clone_timeout_world =
     empty_world\<lparr> git_clone_out := Inl (Exc TimeoutExpired ''Command git timed out after 300 seconds'') \<rparr>"

definition unparsable_world :: world where
  "unparsable_world =
     empty_world\<lparr> urlparse_out := (\<lambda>url. Inl (Exc OtherException ''Invalid IPv6 URL'')) \<rparr>"

definition workflow_world :: world where
  "workflow_world =
     empty_world\<lparr>
       exists_out := (\<lambda>p. Inr (p \<in> set [''SECURITY.md'', ''.github/SECURITY.md'', ''.github/workflows''])),
       glob_out := (\<lambda>d pat. if d = ''.github/workflows'' \<and> pat = ''*.yml''
                             then Inr [''a.yml'', ''b.yml'', ''c.yml''] else Inr []),
       read_out := (\<lambda>p enc. if p \<in> set [''a.yml'', ''b.yml'', ''c.yml'']
                             then Inr ''CodeQL Dependabot''
                             else Inl (Exc OtherException ''No such file or directory'')) \<rparr>"

text \<open>The clone does not give a workspace: \<^verbatim>\<open>clone_repository\<close> returns \<^verbatim>\<open>None\<close>.\<close>

definition clone_fails :: "world \<Rightarrow> string \<Rightarrow> bool" where
  "clone_fails w name =
     (case mkdtemp_out w name of
        Inl e \<Rightarrow> True
      | Inr temp_dir \<Rightarrow>
          (case git_clone_out w of
             Inl e \<Rightarrow> True
           | Inr result \<Rightarrow> returncode result \<noteq> 0))"

definition eslint_broken_world :: world where
  "eslint_broken_world =
     empty_world\<lparr>
       rglob_out := (\<lambda>pat. if pat = ''*.js'' then Inr [''index.js''] else Inr []),
       exists_out := (\<lambda>p. Inr (p = ''package.json'')),
       eslint_out := Inr \<lparr> returncode = 2, stdout = [], stderr = ''Oops! Something went wrong'' \<rparr> \<rparr>"

definition no_config_world :: world where
  "no_config_world =
     empty_world\<lparr> rglob_out := (\<lambda>pat. if pat = ''*.ts'' then Inr [''main.ts''] else Inr []) \<rparr>"

text \<open>
  The composite in the words of the specification: the weighted mean over the analyzers,
  where an analyzer whose score is not positive has weight zero, and the default 50 when no
  weight is left. The argument lists the nominal weight and the score of each analyzer.
\<close>

definition positive_weighted_mean :: "(real \<times> int) list \<Rightarrow> real" where
  "positive_weighted_mean xs =
     (let ys = filter (\<lambda>(wt, sc). sc > 0) xs;
          total_weight = sum_list (map fst ys)
      in if total_weight > 0 then sum_list (map (\<lambda>(wt, sc). real_of_int sc * wt) ys) / total_weight
         else 50)"

definition readme_text :: string where
  "readme_text =
     ''# Install\<newline># Usage\<newline># License\<newline>```code```\<newline>one two three four five.''"

definition readme_world :: world where
  "readme_world =
     empty_world\<lparr>
       exists_out := (\<lambda>p. Inr (p = ''README.md'')),
       read_out := (\<lambda>p enc. if p = ''README.md'' then Inr readme_text
                             else Inl (Exc OtherException ''No such file or directory'')) \<rparr>"

section \<open>Scoring policies\<close>

lemma flake8_policy_bounds:
  "30 \<le> flake8_policy i c" "flake8_policy i c \<le> 80" "flake8_policy i c \<le> 90"
  "0 \<le> flake8_policy i c" "flake8_policy i c \<noteq> 0"
  by (simp_all add: flake8_policy_def Let_def)

lemma eslint_policy_bounds:
  "20 \<le> eslint_policy i c" "eslint_policy i c \<le> 80" "0 \<le> eslint_policy i c" "eslint_policy i c \<noteq> 0"
  by (simp_all add: eslint_policy_def Let_def)

lemma complexity_band_bounds:
  "20 \<le> complexity_band a" "complexity_band a \<le> 90" "0 \<le> complexity_band a" "complexity_band a \<noteq> 0"
  by (simp_all add: complexity_band_def)

text \<open>
  Claim C9. The scoring policies are total functions of the raw counts and monotonic:
  more issues or more critical issues never raise the flake8 score (nor the ESLint score),
  the score is defined for no findings (80 for a run that reported none of its own lines),
  it saturates (flake8 at 30 once the penalty reaches 50, ESLint at 20), and one more
  critical issue lowers the score at least as much as one more generic issue. The bandings
  of the average complexity and of the average sentence length are monotonic as well.
  Totality is that of the HOL functions: the policies divide by nothing and index nothing.
\<close>

theorem scoring_policies_monotone:
  "(i \<le> i' \<and> c \<le> c' \<longrightarrow>
      flake8_policy i' c' \<le> flake8_policy i c \<and> eslint_policy i' c' \<le> eslint_policy i c)
   \<and> flake8_policy 0 0 = 80 \<and> eslint_policy 0 0 = 80
   \<and> 30 \<le> flake8_policy i c \<and> flake8_policy i c \<le> 80
   \<and> 20 \<le> eslint_policy i c \<and> eslint_policy i c \<le> 80
   \<and> (50 \<le> 2 * i + 5 * c \<longrightarrow> flake8_policy i c = 30)
   \<and> (60 \<le> i + 3 * c \<longrightarrow> eslint_policy i c = 20)
   \<and> flake8_policy i c - flake8_policy (Suc i) c \<le> flake8_policy i c - flake8_policy (Suc i) (Suc c)
   \<and> eslint_policy i c - eslint_policy (Suc i) c \<le> eslint_policy i c - eslint_policy (Suc i) (Suc c)
   \<and> (a \<le> b \<longrightarrow> complexity_band b \<le> complexity_band a \<and> readability_band b \<le> readability_band a)"
proof -
  have mono: "i \<le> i' \<and> c \<le> c' \<longrightarrow>
      flake8_policy i' c' \<le> flake8_policy i c \<and> eslint_policy i' c' \<le> eslint_policy i c"
    unfolding flake8_policy_def eslint_policy_def Let_def by auto
  have range: "flake8_policy 0 0 = 80 \<and> eslint_policy 0 0 = 80
      \<and> 30 \<le> flake8_policy i c \<and> flake8_policy i c \<le> 80
      \<and> 20 \<le> eslint_policy i c \<and> eslint_policy i c \<le> 80"
    unfolding flake8_policy_def eslint_policy_def Let_def by simp
  have saturate: "(50 \<le> 2 * i + 5 * c \<longrightarrow> flake8_policy i c = 30)
      \<and> (60 \<le> i + 3 * c \<longrightarrow> eslint_policy i c = 20)"
    unfolding flake8_policy_def eslint_policy_def Let_def by auto
  have severity:
    "flake8_policy i c - flake8_policy (Suc i) c \<le> flake8_policy i c - flake8_policy (Suc i) (Suc c)
     \<and> eslint_policy i c - eslint_policy (Suc i) c \<le> eslint_policy i c - eslint_policy (Suc i) (Suc c)"
    unfolding flake8_policy_def eslint_policy_def Let_def by auto
  have bands: "a \<le> b \<longrightarrow> complexity_band b \<le> complexity_band a \<and> readability_band b \<le> readability_band a"
    unfolding complexity_band_def readability_band_def by auto
  from mono range saturate severity bands show ?thesis by blast
qed

theorem scoring_policies_monotone_witness:
  "(1::nat) \<le> 3 \<and> (0::nat) \<le> 1 \<and> flake8_policy 3 1 \<le> flake8_policy 1 0
   \<and> flake8_policy 1 0 = 78 \<and> flake8_policy 3 1 = 69
   \<and> eslint_policy 3 1 \<le> eslint_policy 1 0
   \<and> (50::nat) \<le> 2 * 20 + 5 * 2 \<and> flake8_policy 20 2 = 30
   \<and> (60::nat) \<le> 30 + 3 * 10 \<and> eslint_policy 30 10 = 20
   \<and> (4::real) \<le> 12 \<and> complexity_band 12 \<le> complexity_band 4
   \<and> readability_band 12 \<le> readability_band 4"
  using scoring_policies_monotone [of 1 3 0 1 4 12] scoring_policies_monotone [of 20 20 2 2 4 12]
    scoring_policies_monotone [of 30 30 10 10 4 12]
  by (simp add: flake8_policy_def)

text \<open>
  Claim C10. \<^verbatim>\<open>run_flake8_analysis\<close> always returns, and its score is 0 or lies in 30..90.
  It is 0 exactly when there are no Python files or an exception (the timeout among them)
  was raised by the search for files or by the tool. A run that completed with exit status 0
  (flake8 found no issues) scores 90; a run that completed with another exit status (flake8
  reported issues) scores by the policy, between 30 and 80, so never strictly between 0 and 30.
\<close>

theorem flake8_score_range:
  "\<exists>r. run_flake8_analysis w = Inr r
     \<and> (lint_result.score r = 0 \<or> (30 \<le> lint_result.score r \<and> lint_result.score r \<le> 90))
     \<and> (lint_result.score r = 0 \<longleftrightarrow>
          (rglob_out w ''*.py'' = Inr []
           \<or> (\<exists>e. rglob_out w ''*.py'' = Inl e)
           \<or> (\<exists>fs e. rglob_out w ''*.py'' = Inr fs \<and> fs \<noteq> [] \<and> flake8_out w = Inl e)))
     \<and> (\<forall>fs res. rglob_out w ''*.py'' = Inr fs \<and> fs \<noteq> [] \<and> flake8_out w = Inr res \<longrightarrow>
          (if returncode res = 0 then lint_result.score r = 90
           else lint_result.score r = flake8_policy (issues r) (critical_issues r)
                \<and> 30 \<le> lint_result.score r \<and> lint_result.score r \<le> 80))"
proof (cases "rglob_out w ''*.py''")
  case (Inl e)
  then show ?thesis
    by (simp add: run_flake8_analysis_def flake8_try_def lint_init_def)
next
  case (Inr fs)
  show ?thesis
  proof (cases "fs = []")
    case True
    with Inr show ?thesis
      by (simp add: run_flake8_analysis_def flake8_try_def lint_init_def)
  next
    case False
    show ?thesis
    proof (cases "flake8_out w")
      case (Inl e)
      with Inr False show ?thesis
        by (simp add: run_flake8_analysis_def flake8_try_def lint_init_def)
    next
      case res: (Inr res)
      with Inr False show ?thesis
        by (simp add: run_flake8_analysis_def flake8_try_def lint_init_def Let_def flake8_policy_bounds)
    qed
  qed
qed

theorem flake8_score_range_witness:
  "rglob_out python_world ''*.py'' = Inr [''app.py''] \<and> [''app.py''] \<noteq> []
   \<and> flake8_out python_world = Inr \<lparr> returncode = 1, stdout = [],
                                      stderr = ''app.py:1:1: F401 unused import\<newline>1\<newline>'' \<rparr>
   \<and> (\<exists>r. run_flake8_analysis python_world = Inr r \<and> lint_result.score r = 71
          \<and> issues r = 2 \<and> critical_issues r = 1
          \<and> 30 \<le> lint_result.score r \<and> lint_result.score r \<le> 80)"
  using flake8_score_range [of python_world]
  by (simp add: python_world_def empty_world_def run_flake8_analysis_def flake8_try_def lint_init_def Let_def
      flake8_policy_def flake8_lines_def flake8_critical_def strip_def is_space_def lower_def lower_char_def upper_letters_def lower_letters_def)

section \<open>The pipeline never stops at an analyzer\<close>

lemma flake8_returns: "\<exists>r. run_flake8_analysis w = Inr r"
  by (simp add: run_flake8_analysis_def split: sum.splits)

lemma radon_returns: "\<exists>r. run_radon_analysis w = Inr r"
  by (simp add: run_radon_analysis_def split: sum.splits)

lemma eslint_returns: "\<exists>r. run_eslint_analysis w = Inr r"
  by (simp add: run_eslint_analysis_def split: sum.splits)

lemma documentation_returns: "\<exists>r. analyze_documentation w = Inr r"
  by (simp add: analyze_documentation_def split: sum.splits)

lemma dependencies_returns: "\<exists>r. analyze_dependencies w = Inr r"
  by (simp add: analyze_dependencies_def Let_def)

lemma security_returns: "\<exists>r. analyze_security w = Inr r"
  by (simp add: analyze_security_def split: prod.splits option.splits)

lemma run_analyzers_eq:
  assumes "run_flake8_analysis w = Inr f" and "run_radon_analysis w = Inr r"
    and "run_eslint_analysis w = Inr e" and "analyze_documentation w = Inr d"
    and "analyze_dependencies w = Inr p" and "analyze_security w = Inr s"
  shows "run_analyzers w rep =
           (None, calculate_aggregate_scores
                    (rep\<lparr> cq_flake8 := Some f, complexity := Some r, cq_eslint := Some e,
                          documentation := Some d, dependencies := Some p, security := Some s \<rparr>))"
  by (simp add: run_analyzers_def Let_def assms)

lemma analyzer_init_state:
  assumes "analyzer_init url w = Inr st"
  shows "analysis_results st = initial_report url w" and "temp_dirs st = {}" and "repo_url st = url"
  using assms by (auto simp: analyzer_init_def split: sum.splits)

lemma sample_init:
  assumes "urlparse_out w sample_url = Inr (''github.com'', ''/owner/repo'')"
  shows "analyzer_init sample_url w = Inr (sample_state w)"
  by (simp add: analyzer_init_def get_repo_name_from_url_def assms strip_char_def sample_state_def
      Let_def)

lemma clone_repository_ok:
  assumes "mkdtemp_out w (local_path st) = Inr d" and "git_clone_out w = Inr cp" and "returncode cp = 0"
  shows "clone_repository w st = (st\<lparr> temp_dirs := insert d (temp_dirs st) \<rparr>, Some d)"
  by (simp add: clone_repository_def Let_def assms)

lemma cleanup_keeps:
  "cq_flake8 (analysis_results (cleanup w p st)) = cq_flake8 (analysis_results st)"
  "cq_eslint (analysis_results (cleanup w p st)) = cq_eslint (analysis_results st)"
  "complexity (analysis_results (cleanup w p st)) = complexity (analysis_results st)"
  "documentation (analysis_results (cleanup w p st)) = documentation (analysis_results st)"
  "dependencies (analysis_results (cleanup w p st)) = dependencies (analysis_results st)"
  "security (analysis_results (cleanup w p st)) = security (analysis_results st)"
  "aggregate (analysis_results (cleanup w p st)) = aggregate (analysis_results st)"
  "errors (analysis_results (cleanup w p st)) = errors (analysis_results st)"
  by (simp_all add: cleanup_def add_warning_def split: option.splits sum.splits)

lemma run_analysis_ok:
  assumes "mkdtemp_out w (local_path st) = Inr d" and "d \<noteq> []" and "git_clone_out w = Inr cp" and "returncode cp = 0"
    and "run_analyzers w (analysis_results st) = (None, rep)"
  shows "run_analysis w st = cleanup w (Some d) (st\<lparr> temp_dirs := insert d (temp_dirs st), analysis_results := rep \<rparr>)"
  using assms by (simp add: run_analysis_def clone_repository_ok)

text \<open>
  Claim C4. Each of the six analyzers returns a result dictionary in every world, whatever
  the file system and the tools do (no applicable files, a tool that fails, output that
  cannot be parsed, a timeout, any other exception). Hence, once the repository is cloned,
  the report holds the result of every analyzer, each equal to what that analyzer returns on
  its own, the aggregate is computed, and no error is recorded: a failure inside one
  analyzer does not keep the others from running.
\<close>

theorem analyzers_isolated:
  "(\<exists>f. run_flake8_analysis w = Inr f) \<and> (\<exists>r. run_radon_analysis w = Inr r)
   \<and> (\<exists>e. run_eslint_analysis w = Inr e) \<and> (\<exists>d. analyze_documentation w = Inr d)
   \<and> (\<exists>p. analyze_dependencies w = Inr p) \<and> (\<exists>s. analyze_security w = Inr s)
   \<and> (\<forall>st tmp cp. analyzer_init url w = Inr st \<and> mkdtemp_out w (local_path st) = Inr tmp
          \<and> tmp \<noteq> [] \<and> git_clone_out w = Inr cp \<and> returncode cp = 0 \<longrightarrow>
        (\<exists>rep. rep = analysis_results (run_analysis w st)
           \<and> map_option Inr (cq_flake8 rep) = Some (run_flake8_analysis w)
           \<and> map_option Inr (complexity rep) = Some (run_radon_analysis w)
           \<and> map_option Inr (cq_eslint rep) = Some (run_eslint_analysis w)
           \<and> map_option Inr (documentation rep) = Some (analyze_documentation w)
           \<and> map_option Inr (dependencies rep) = Some (analyze_dependencies w)
           \<and> map_option Inr (security rep) = Some (analyze_security w)
           \<and> aggregate rep \<noteq> None \<and> errors rep = []))"
proof -
  obtain f r e d p s where res:
    "run_flake8_analysis w = Inr f" "run_radon_analysis w = Inr r" "run_eslint_analysis w = Inr e"
    "analyze_documentation w = Inr d" "analyze_dependencies w = Inr p" "analyze_security w = Inr s"
    using flake8_returns radon_returns eslint_returns documentation_returns dependencies_returns
      security_returns by metis
  have "\<exists>rep. rep = analysis_results (run_analysis w st)
           \<and> map_option Inr (cq_flake8 rep) = Some (run_flake8_analysis w)
           \<and> map_option Inr (complexity rep) = Some (run_radon_analysis w)
           \<and> map_option Inr (cq_eslint rep) = Some (run_eslint_analysis w)
           \<and> map_option Inr (documentation rep) = Some (analyze_documentation w)
           \<and> map_option Inr (dependencies rep) = Some (analyze_dependencies w)
           \<and> map_option Inr (security rep) = Some (analyze_security w)
           \<and> aggregate rep \<noteq> None \<and> errors rep = []"
    if init: "analyzer_init url w = Inr st"
      and ok: "mkdtemp_out w (local_path st) = Inr tmp" "tmp \<noteq> []" "git_clone_out w = Inr cp"
        "returncode cp = 0"
    for st tmp cp
  proof -
    let ?st = "st"
    let ?rep = "calculate_aggregate_scores
                  ((analysis_results ?st)\<lparr> cq_flake8 := Some f, complexity := Some r, cq_eslint := Some e,
                        documentation := Some d, dependencies := Some p, security := Some s \<rparr>)"
    have run: "run_analysis w ?st =
        cleanup w (Some tmp) (?st\<lparr> temp_dirs := insert tmp (temp_dirs ?st), analysis_results := ?rep \<rparr>)"
      by (rule run_analysis_ok [OF ok run_analyzers_eq [OF res]])
    show ?thesis
      unfolding run
      by (simp add: cleanup_keeps res calculate_aggregate_scores_def Let_def
          analyzer_init_state [OF init] initial_report_def)
  qed
  with res show ?thesis by simp
qed

text \<open>The analyzers on \<open>failing_world\<close>, where flake8 times out, radon is missing and ESLint prints no JSON.\<close>

lemma failing_flake8:
  "run_flake8_analysis failing_world =
     Inr (lint_init\<lparr> lint_result.details := [''timeout'' \<mapsto> DBool True], lint_result.score := 0 \<rparr>)"
  by (simp add: failing_world_def empty_world_def run_flake8_analysis_def flake8_try_def)

lemma failing_radon:
  "run_radon_analysis failing_world =
     Inr (radon_init\<lparr> radon_result.details := [''error'' \<mapsto> DStr ''No such file or directory: radon''] \<rparr>)"
  by (simp add: failing_world_def empty_world_def run_radon_analysis_def radon_try_def)

lemma failing_eslint:
  "run_eslint_analysis failing_world =
     Inr (lint_init\<lparr> lint_result.details := [''error'' \<mapsto> DStr ''Failed to parse ESLint output''],
                     lint_result.score := 30 \<rparr>)"
  by (simp add: failing_world_def empty_world_def run_eslint_analysis_def eslint_try_def source_files_def
      eslint_config_def)

lemma failing_documentation:
  "analyze_documentation failing_world =
     Inr (doc_init\<lparr> doc_result.details := [''message'' \<mapsto> DStr ''No README file found''] \<rparr>)"
  by (simp add: failing_world_def empty_world_def analyze_documentation_def doc_try_def readme_files_def)

lemma failing_dependencies:
  "\<exists>p. analyze_dependencies failing_world = Inr p \<and> presence_result.score p = 15"
  by (simp add: failing_world_def empty_world_def analyze_dependencies_def dep_try_def dep_init_def
      dependency_files_def lock_files_def dep_security_files_def)

lemma failing_security:
  "\<exists>s. analyze_security failing_world = Inr s \<and> presence_result.score s = 30"
  by (simp add: failing_world_def empty_world_def analyze_security_def sec_try_def sec_init_def
      security_files_def base_security_def)

theorem analyzers_isolated_witness:
  "analyzer_init sample_url failing_world = Inr (sample_state failing_world)
   \<and> mkdtemp_out failing_world (local_path (sample_state failing_world)) = Inr ''/tmp/owner_repo0''
   \<and> ''/tmp/owner_repo0'' \<noteq> []
   \<and> git_clone_out failing_world = Inr ok_process \<and> returncode ok_process = 0
   \<and> lint_result.details (the (cq_flake8 failing_report)) ''timeout'' = Some (DBool True)
   \<and> radon_result.details (the (complexity failing_report)) ''error''
       = Some (DStr ''No such file or directory: radon'')
   \<and> lint_result.details (the (cq_eslint failing_report)) ''error''
       = Some (DStr ''Failed to parse ESLint output'')
   \<and> doc_result.details (the (documentation failing_report)) ''message''
       = Some (DStr ''No README file found'')
   \<and> presence_result.score (the (dependencies failing_report)) = 15
   \<and> presence_result.score (the (security failing_report)) = 30
   \<and> code_quality_score (the (aggregate failing_report)) = 30
   \<and> errors failing_report = []"
proof -
  let ?st = "sample_state failing_world"
  have init: "analyzer_init sample_url failing_world = Inr ?st"
    by (rule sample_init) (simp add: failing_world_def empty_world_def)
  have hyp: "mkdtemp_out failing_world (local_path ?st) = Inr ''/tmp/owner_repo0''
      \<and> ''/tmp/owner_repo0'' \<noteq> []
      \<and> git_clone_out failing_world = Inr ok_process \<and> returncode ok_process = 0"
    by (simp add: failing_world_def empty_world_def ok_process_def sample_state_def)
  obtain p where p: "analyze_dependencies failing_world = Inr p" "presence_result.score p = 15"
    using failing_dependencies by blast
  obtain s where s: "analyze_security failing_world = Inr s" "presence_result.score s = 30"
    using failing_security by blast
  note run = run_analyzers_eq [OF failing_flake8 failing_radon failing_eslint failing_documentation
      p(1) s(1), of "analysis_results ?st"]
  have "run_analysis failing_world ?st = cleanup failing_world (Some ''/tmp/owner_repo0'')
      (?st\<lparr> temp_dirs := insert ''/tmp/owner_repo0'' (temp_dirs ?st),
            analysis_results := snd (run_analyzers failing_world (analysis_results ?st)) \<rparr>)"
    using hyp run by (intro run_analysis_ok [where cp = ok_process]) simp_all
  then have agg: "code_quality_score (the (aggregate failing_report)) = 30"
    by (simp add: failing_report_def cleanup_keeps run calculate_aggregate_scores_def Let_def
        aggregate_code_score_def round2_def lint_init_def radon_init_def)
  from analyzers_isolated [of failing_world sample_url] init hyp
  have iso: "map_option Inr (cq_flake8 failing_report) = Some (run_flake8_analysis failing_world)
           \<and> map_option Inr (complexity failing_report) = Some (run_radon_analysis failing_world)
           \<and> map_option Inr (cq_eslint failing_report) = Some (run_eslint_analysis failing_world)
           \<and> map_option Inr (documentation failing_report) = Some (analyze_documentation failing_world)
           \<and> map_option Inr (dependencies failing_report) = Some (analyze_dependencies failing_world)
           \<and> map_option Inr (security failing_report) = Some (analyze_security failing_world)
           \<and> errors failing_report = []"
    by (simp add: failing_report_def)
  then show ?thesis
    using init hyp agg p s
    by (auto simp: failing_flake8 failing_radon failing_eslint failing_documentation lint_init_def
        radon_init_def doc_init_def)
qed

section \<open>The empty repository\<close>

lemma workflow_loop_quiet: "list_all (quiet_workflow w) fs \<Longrightarrow> workflow_loop w fs r = r"
  by (induction fs) (auto simp: quiet_workflow_def Let_def split: sum.splits)

lemma bare_flake8:
  "bare_workspace w \<Longrightarrow> run_flake8_analysis w =
     Inr (lint_init\<lparr> lint_result.details := [''message'' \<mapsto> DStr ''No Python files found''] \<rparr>)"
  by (simp add: bare_workspace_def run_flake8_analysis_def flake8_try_def)

lemma bare_radon: "bare_workspace w \<Longrightarrow> run_radon_analysis w = Inr radon_init"
  by (simp add: bare_workspace_def run_radon_analysis_def radon_try_def)

lemma bare_eslint:
  "bare_workspace w \<Longrightarrow> run_eslint_analysis w =
     Inr (lint_init\<lparr> lint_result.details := [''message'' \<mapsto> DStr ''No JS/TS files found''] \<rparr>)"
  by (simp add: bare_workspace_def run_eslint_analysis_def eslint_try_def source_files_def)

lemma bare_documentation:
  "bare_workspace w \<Longrightarrow> analyze_documentation w =
     Inr (doc_init\<lparr> doc_result.details := [''message'' \<mapsto> DStr ''No README file found''] \<rparr>)"
  by (simp add: bare_workspace_def analyze_documentation_def doc_try_def readme_files_def)

lemma bare_dependencies:
  "bare_workspace w \<Longrightarrow> analyze_dependencies w = Inr dep_init"
  by (simp add: bare_workspace_def analyze_dependencies_def dep_try_def dep_init_def readme_files_def
      dependency_files_def lock_files_def dep_security_files_def fun_upd_idem)

lemma bare_security:
  "bare_workspace w \<Longrightarrow> analyze_security w = Inr (sec_init\<lparr> presence_result.score := 30 \<rparr>)"
  by (auto simp: bare_workspace_def analyze_security_def sec_try_def sec_init_def readme_files_def
      dependency_files_def lock_files_def dep_security_files_def security_files_def base_security_def
      no_security_workflows_def workflow_loop_quiet fun_upd_idem split: sum.splits if_splits)

lemma score_readme_range:
  "0 \<le> doc_result.score (score_readme c) \<and> doc_result.score (score_readme c) \<le> 100"
  unfolding score_readme_def Let_def doc_init_def by (simp split del: if_split)

lemma documentation_score_range:
  assumes "analyze_documentation w = Inr d"
  shows "0 \<le> doc_result.score d \<and> doc_result.score d \<le> 100"
proof (cases "doc_try w")
  case (Inl e)
  with assms show ?thesis by (auto simp: analyze_documentation_def doc_init_def)
next
  case (Inr r)
  then have "r = d" using assms by (simp add: analyze_documentation_def)
  with Inr score_readme_range show ?thesis
    by (auto simp: doc_try_def doc_init_def split: sum.splits option.splits if_splits)
qed

text \<open>
  Claim C7. In a workspace with no Python files, no JS/TS files, no README, none of the
  dependency files and no security files, flake8 and ESLint report that they found no files
  (score 0), radon returns its initial result (score 0), the documentation score is 0, the
  lowest value a documentation score can take, the dependency score is 0, the security
  score is the base score 30, and the code quality score is the default 50.
\<close>

theorem empty_repository_scores:
  assumes "bare_workspace w"
  shows "(\<exists>f. run_flake8_analysis w = Inr f \<and> lint_result.score f = 0
              \<and> lint_result.details f ''message'' = Some (DStr ''No Python files found''))
       \<and> (\<exists>e. run_eslint_analysis w = Inr e \<and> lint_result.score e = 0
              \<and> lint_result.details e ''message'' = Some (DStr ''No JS/TS files found''))
       \<and> (\<exists>r. run_radon_analysis w = Inr r \<and> complexity_score r = 0
              \<and> radon_result.details r = Map.empty)
       \<and> (\<exists>d. analyze_documentation w = Inr d \<and> doc_result.score d = 0
              \<and> doc_result.details d ''message'' = Some (DStr ''No README file found''))
       \<and> (\<forall>w' d'. analyze_documentation w' = Inr d' \<longrightarrow> 0 \<le> doc_result.score d')
       \<and> (\<exists>p. analyze_dependencies w = Inr p \<and> presence_result.score p = 0)
       \<and> (\<exists>s. analyze_security w = Inr s \<and> presence_result.score s = 30)
       \<and> (\<exists>rep'. run_analyzers w rep = (None, rep')
              \<and> aggregate rep' = Some \<lparr> code_quality_score = 50, documentation_score = 0,
                                          security_score = 30, dependency_score = 0 \<rparr>)"
proof -
  note res = bare_flake8 [OF assms] bare_radon [OF assms] bare_eslint [OF assms]
    bare_documentation [OF assms] bare_dependencies [OF assms] bare_security [OF assms]
  have agg: "\<exists>rep'. run_analyzers w rep = (None, rep')
      \<and> aggregate rep' = Some \<lparr> code_quality_score = 50, documentation_score = 0,
                                  security_score = 30, dependency_score = 0 \<rparr>"
    by (simp add: run_analyzers_eq [OF res] calculate_aggregate_scores_def Let_def
        aggregate_code_score_def round2_def lint_init_def radon_init_def doc_init_def dep_init_def
        sec_init_def)
  have doc_min: "\<forall>w' d'. analyze_documentation w' = Inr d' \<longrightarrow> 0 \<le> doc_result.score d'"
    using documentation_score_range by blast
  show ?thesis
    using agg doc_min
    by (simp add: res lint_init_def radon_init_def doc_init_def dep_init_def sec_init_def)
qed

lemma bare_ci_world: "bare_workspace ci_world"
  by (simp add: bare_workspace_def ci_world_def empty_world_def readme_files_def dependency_files_def
      lock_files_def dep_security_files_def security_files_def no_security_workflows_def
      quiet_workflow_def lower_def lower_char_def upper_letters_def lower_letters_def Let_def)

theorem empty_repository_scores_witness:
  "bare_workspace ci_world
   \<and> lint_result.score (projr (run_flake8_analysis ci_world)) = 0
   \<and> lint_result.score (projr (run_eslint_analysis ci_world)) = 0
   \<and> complexity_score (projr (run_radon_analysis ci_world)) = 0
   \<and> doc_result.score (projr (analyze_documentation ci_world)) = 0
   \<and> presence_result.score (projr (analyze_dependencies ci_world)) = 0
   \<and> presence_result.score (projr (analyze_security ci_world)) = 30
   \<and> aggregate (snd (run_analyzers ci_world (initial_report sample_url ci_world)))
       = Some \<lparr> code_quality_score = 50, documentation_score = 0,
                 security_score = 30, dependency_score = 0 \<rparr>"
proof -
  note inst = empty_repository_scores [OF bare_ci_world,
      of "initial_report sample_url ci_world"]
  from inst have "lint_result.score (projr (run_flake8_analysis ci_world)) = 0" by force
  moreover from inst have "lint_result.score (projr (run_eslint_analysis ci_world)) = 0" by force
  moreover from inst have "complexity_score (projr (run_radon_analysis ci_world)) = 0" by force
  moreover from inst have "doc_result.score (projr (analyze_documentation ci_world)) = 0" by force
  moreover from inst have "presence_result.score (projr (analyze_dependencies ci_world)) = 0" by force
  moreover from inst have "presence_result.score (projr (analyze_security ci_world)) = 30" by force
  moreover from inst have
    "aggregate (snd (run_analyzers ci_world (initial_report sample_url ci_world)))
       = Some \<lparr> code_quality_score = 50, documentation_score = 0,
                 security_score = 30, dependency_score = 0 \<rparr>" by force
  ultimately show ?thesis using bare_ci_world by simp
qed

section \<open>Category scores\<close>

text \<open>
  Claim C6, as the code has it. The documentation, dependency and security scores of the
  aggregate are always the score of the one analyzer of the category, also when that
  analyzer found nothing: without a README the documentation score is 0, not the default 50
  of the code quality score.
\<close>

theorem category_scores_direct:
  "\<exists>d p s rep' a.
      analyze_documentation w = Inr d \<and> analyze_dependencies w = Inr p \<and> analyze_security w = Inr s
      \<and> run_analyzers w rep = (None, rep') \<and> aggregate rep' = Some a
      \<and> documentation_score a = doc_result.score d
      \<and> dependency_score a = presence_result.score p
      \<and> security_score a = presence_result.score s
      \<and> (read_readme w readme_files = Inr None \<or> read_readme w readme_files = Inr (Some []) \<longrightarrow>
            doc_result.details d ''message'' = Some (DStr ''No README file found'')
            \<and> documentation_score a = 0)"
proof -
  obtain f r e d p s where res:
    "run_flake8_analysis w = Inr f" "run_radon_analysis w = Inr r" "run_eslint_analysis w = Inr e"
    "analyze_documentation w = Inr d" "analyze_dependencies w = Inr p" "analyze_security w = Inr s"
    using flake8_returns radon_returns eslint_returns documentation_returns dependencies_returns
      security_returns by metis
  have none: "doc_result.details d ''message'' = Some (DStr ''No README file found'') \<and> doc_result.score d = 0"
    if "read_readme w readme_files = Inr None \<or> read_readme w readme_files = Inr (Some [])"
    using that res(4) by (auto simp: analyze_documentation_def doc_try_def doc_init_def)
  show ?thesis
    using none
    by (simp add: res run_analyzers_eq [OF res] calculate_aggregate_scores_def Let_def)
qed

theorem category_scores_direct_witness:
  "read_readme ci_world readme_files = Inr None
   \<and> doc_result.details (projr (analyze_documentation ci_world)) ''message''
       = Some (DStr ''No README file found'')
   \<and> documentation_score (the (aggregate (snd (run_analyzers ci_world
         (initial_report sample_url ci_world))))) = 0"
proof -
  have none: "read_readme ci_world readme_files = Inr None"
    by (simp add: ci_world_def empty_world_def readme_files_def)
  from category_scores_direct [of ci_world "initial_report sample_url ci_world"] none
  show ?thesis by force
qed

lemma bare_empty_world: "bare_workspace empty_world"
  by (simp add: bare_workspace_def empty_world_def readme_files_def dependency_files_def
      lock_files_def dep_security_files_def security_files_def no_security_workflows_def)

text \<open>
  The claim as stated fails: with no README the analyzer reports that it found none, and
  the documentation score of the aggregate is 0, not the default 50.
\<close>

theorem category_default_counterexample:
  "doc_result.details (projr (analyze_documentation empty_world)) ''message''
     = Some (DStr ''No README file found'')
   \<and> documentation_score (the (aggregate (snd (run_analyzers empty_world
         (initial_report sample_url empty_world))))) = 0
   \<and> documentation_score (the (aggregate (snd (run_analyzers empty_world
         (initial_report sample_url empty_world))))) \<noteq> 50"
proof -
  note res = bare_flake8 [OF bare_empty_world] bare_radon [OF bare_empty_world]
    bare_eslint [OF bare_empty_world] bare_documentation [OF bare_empty_world]
    bare_dependencies [OF bare_empty_world] bare_security [OF bare_empty_world]
  show ?thesis
    by (simp add: res run_analyzers_eq [OF res] calculate_aggregate_scores_def Let_def doc_init_def)
qed

section \<open>Exit status and the workspace\<close>

lemma clone_repository_fails:
  assumes "clone_fails w (local_path st)"
  shows "\<exists>msg dirs. clone_repository w st = (add_error msg (st\<lparr> temp_dirs := dirs \<rparr>), None)"
proof (cases "mkdtemp_out w (local_path st)")
  case (Inl e)
  have "clone_repository w st = (add_error (clone_error e) (st\<lparr> temp_dirs := temp_dirs st \<rparr>), None)"
    by (simp add: clone_repository_def Inl)
  then show ?thesis by blast
next
  case (Inr d)
  show ?thesis
  proof (cases "git_clone_out w")
    case (Inl e)
    have "clone_repository w st =
        (add_error (clone_error e) (st\<lparr> temp_dirs := insert d (temp_dirs st) \<rparr>), None)"
      by (simp add: clone_repository_def Inr Inl)
    then show ?thesis by blast
  next
    case res: (Inr result)
    with assms Inr have "returncode result \<noteq> 0" by (simp add: clone_fails_def)
    then have "clone_repository w st =
        (add_error (clone_error (Exc CalledProcessError
            ''Command git clone returned non-zero exit status''))
          (st\<lparr> temp_dirs := insert d (temp_dirs st) \<rparr>), None)"
      by (simp add: clone_repository_def Inr res)
    then show ?thesis by blast
  qed
qed

lemma run_analysis_clone_fails:
  assumes "clone_fails w (local_path st)"
  shows "\<exists>msg dirs. run_analysis w st = add_error msg (st\<lparr> temp_dirs := dirs \<rparr>)"
proof -
  obtain msg dirs where "clone_repository w st = (add_error msg (st\<lparr> temp_dirs := dirs \<rparr>), None)"
    using clone_repository_fails [OF assms] by blast
  then have "run_analysis w st = add_error msg (st\<lparr> temp_dirs := dirs \<rparr>)"
    by (simp add: run_analysis_def cleanup_def)
  then show ?thesis by blast
qed

lemma analyzer_init_parses:
  "(\<exists>st. analyzer_init url w = Inr st) \<longleftrightarrow> (\<exists>p. urlparse_out w url = Inr p)"
  by (auto simp: analyzer_init_def get_repo_name_from_url_def Let_def split: sum.splits prod.splits)

lemma parse_args_positional: "\<not> prefix ''-'' arg \<Longrightarrow> parse_args w arg = Inr arg"
  by (simp add: parse_args_def)

lemma main_of_state:
  assumes "parse_args w arg = Inr url" and "valid_repo_url url" and "analyzer_init url w = Inr st"
  shows "main arg w = \<lparr> exit_status = 0, written = Some (analysis_results (run_analysis w st)),
                        left_behind = temp_dirs (run_analysis w st) \<rparr>"
  using assms by (simp add: main_def Let_def)

lemma sample_url_valid: "valid_repo_url sample_url"
  by (simp add: valid_repo_url_def sample_url_def)

lemma sample_url_parsed: "parse_args w sample_url = Inr sample_url"
  by (rule parse_args_positional) (simp add: sample_url_def)

lemma clone_fail_run:
  "run_analysis clone_fail_world (sample_state clone_fail_world) =
     add_error ''Failed to clone repository: Command git clone returned non-zero exit status''
       ((sample_state clone_fail_world)\<lparr> temp_dirs := {''/tmp/owner_repo0''} \<rparr>)"
  by (simp add: run_analysis_def clone_repository_def clone_fail_world_def empty_world_def cleanup_def
      clone_error_def sample_state_def Let_def)

lemma clone_fail_init:
  "analyzer_init sample_url clone_fail_world = Inr (sample_state clone_fail_world)"
  by (rule sample_init) (simp add: clone_fail_world_def empty_world_def)

text \<open>
  Claim C5, as the code has it. Take a command line whose argument \<^verbatim>\<open>argparse\<close> accepts as
  the repository URL; every argument that does not start with \<^verbatim>\<open>-\<close> is one. The exit status
  is 1 exactly when the URL is refused (it neither contains \<^verbatim>\<open>github.com\<close> nor starts with
  \<^verbatim>\<open>https://\<close>) or \<^verbatim>\<open>urlparse\<close> raises on it, and then nothing is written. In every other
  case the exit status is 0 and a report is written, whatever the analyzers did and also
  when the clone failed; in that case the report carries one error and no analyzer result.
  When \<^verbatim>\<open>argparse\<close> itself ends the process, the exit status is the one it chose and nothing
  is written.
\<close>

theorem exit_status_policy:
  "(\<not> prefix ''-'' arg \<longrightarrow> parse_args w arg = Inr arg)
   \<and> (\<forall>status. parse_args w arg = Inl status \<longrightarrow>
         exit_status (main arg w) = status \<and> written (main arg w) = None)
   \<and> (\<forall>url. parse_args w arg = Inr url \<longrightarrow>
         exit_status (main arg w) =
           (if valid_repo_url url \<and> (\<exists>p. urlparse_out w url = Inr p) then 0 else 1)
         \<and> (written (main arg w) \<noteq> None \<longleftrightarrow> exit_status (main arg w) = 0)
         \<and> (\<forall>st. valid_repo_url url \<and> analyzer_init url w = Inr st \<and> clone_fails w (local_path st) \<longrightarrow>
              (\<exists>rep. written (main arg w) = Some rep \<and> exit_status (main arg w) = 0
                 \<and> length (errors rep) = 1
                 \<and> cq_flake8 rep = None \<and> cq_eslint rep = None \<and> complexity rep = None
                 \<and> documentation rep = None \<and> dependencies rep = None \<and> security rep = None
                 \<and> aggregate rep = None)))"
proof -
  have p: "\<not> prefix ''-'' arg \<longrightarrow> parse_args w arg = Inr arg"
    by (simp add: parse_args_positional)
  have q: "exit_status (main arg w) = status \<and> written (main arg w) = None"
    if "parse_args w arg = Inl status" for status
    using that by (simp add: main_def)
  have a: "exit_status (main arg w) =
     (if valid_repo_url url \<and> (\<exists>p. urlparse_out w url = Inr p) then 0 else 1)"
    if pa: "parse_args w arg = Inr url" for url
    using analyzer_init_parses [of url w] pa
    by (cases "analyzer_init url w") (auto simp: main_def Let_def)
  have b: "written (main arg w) \<noteq> None \<longleftrightarrow> exit_status (main arg w) = 0"
    if pa: "parse_args w arg = Inr url" for url
    using pa by (cases "analyzer_init url w") (auto simp: main_def Let_def)
  have c: "\<exists>rep. written (main arg w) = Some rep \<and> exit_status (main arg w) = 0
           \<and> length (errors rep) = 1
           \<and> cq_flake8 rep = None \<and> cq_eslint rep = None \<and> complexity rep = None
           \<and> documentation rep = None \<and> dependencies rep = None \<and> security rep = None
           \<and> aggregate rep = None"
    if pa: "parse_args w arg = Inr url" and v: "valid_repo_url url"
      and init: "analyzer_init url w = Inr st" and cf: "clone_fails w (local_path st)" for url st
  proof -
    obtain msg dirs where
      "run_analysis w st = add_error msg (st\<lparr> temp_dirs := dirs \<rparr>)"
      using run_analysis_clone_fails [OF cf] by blast
    then show ?thesis
      by (simp add: main_of_state [OF pa v init] add_error_def analyzer_init_state [OF init]
          initial_report_def)
  qed
  from p q a b c show ?thesis by blast
qed

theorem exit_status_policy_witness:
  "\<not> prefix ''-'' sample_url \<and> parse_args clone_fail_world sample_url = Inr sample_url
   \<and> valid_repo_url sample_url
   \<and> analyzer_init sample_url clone_fail_world = Inr (sample_state clone_fail_world)
   \<and> clone_fails clone_fail_world (local_path (sample_state clone_fail_world))
   \<and> exit_status (main sample_url clone_fail_world) = 0
   \<and> map_option errors (written (main sample_url clone_fail_world))
       = Some [''Failed to clone repository: Command git clone returned non-zero exit status'']
   \<and> cq_flake8 (the (written (main sample_url clone_fail_world))) = None
   \<and> aggregate (the (written (main sample_url clone_fail_world))) = None
   \<and> \<not> valid_repo_url ''owner/repo''
   \<and> exit_status (main ''owner/repo'' clone_fail_world) = 1
   \<and> written (main ''owner/repo'' clone_fail_world) = None
   \<and> valid_repo_url ''https://[::1''
   \<and> urlparse_out unparsable_world ''https://[::1'' = Inl (Exc OtherException ''Invalid IPv6 URL'')
   \<and> exit_status (main ''https://[::1'' unparsable_world) = 1
   \<and> parse_args clone_fail_world ''-github.com/owner/repo'' = Inl 2
   \<and> exit_status (main ''-github.com/owner/repo'' clone_fail_world) = 2
   \<and> written (main ''-github.com/owner/repo'' clone_fail_world) = None
   \<and> parse_args clone_fail_world ''-h'' = Inl 0
   \<and> exit_status (main ''-h'' clone_fail_world) = 0
   \<and> written (main ''-h'' clone_fail_world) = None"
proof -
  have pos: "\<not> prefix ''-'' sample_url" by (simp add: sample_url_def)
  have bad: "\<not> valid_repo_url ''owner/repo''" and ipv6: "valid_repo_url ''https://[::1''"
    by (simp_all add: valid_repo_url_def)
  have fails: "clone_fails clone_fail_world (local_path (sample_state clone_fail_world))"
    by (simp add: clone_fails_def clone_fail_world_def empty_world_def)
  have raises: "urlparse_out unparsable_world ''https://[::1'' = Inl (Exc OtherException ''Invalid IPv6 URL'')"
    by (simp add: unparsable_world_def)
  have dash: "parse_args clone_fail_world ''-github.com/owner/repo'' = Inl 2"
    and usage: "parse_args clone_fail_world ''-h'' = Inl 0"
    by (simp_all add: parse_args_def clone_fail_world_def empty_world_def)
  have err: "map_option errors (written (main sample_url clone_fail_world))
       = Some [''Failed to clone repository: Command git clone returned non-zero exit status'']"
    by (simp add: main_of_state [OF sample_url_parsed sample_url_valid clone_fail_init] clone_fail_run)
      (simp add: add_error_def sample_state_def initial_report_def)
  have parses: "urlparse_out clone_fail_world sample_url = Inr (''github.com'', ''/owner/repo'')"
    by (simp add: clone_fail_world_def empty_world_def)
  from exit_status_policy [of sample_url clone_fail_world] pos
  have t0: "parse_args clone_fail_world sample_url = Inr sample_url" by blast
  from exit_status_policy [of sample_url clone_fail_world] t0 sample_url_valid parses
  have s0: "exit_status (main sample_url clone_fail_world) = 0" by simp
  have t1: "parse_args clone_fail_world ''owner/repo'' = Inr ''owner/repo''"
    by (simp add: parse_args_def)
  from exit_status_policy [of "''owner/repo''" clone_fail_world] t1 bad
  have s1: "exit_status (main ''owner/repo'' clone_fail_world) = 1
      \<and> written (main ''owner/repo'' clone_fail_world) = None" by auto
  have t2: "parse_args unparsable_world ''https://[::1'' = Inr ''https://[::1''"
    by (simp add: parse_args_def)
  from exit_status_policy [of "''https://[::1''" unparsable_world] t2 raises
  have s2: "exit_status (main ''https://[::1'' unparsable_world) = 1" by simp
  from exit_status_policy [of sample_url clone_fail_world] t0 sample_url_valid clone_fail_init fails
  have s3: "cq_flake8 (the (written (main sample_url clone_fail_world))) = None
      \<and> aggregate (the (written (main sample_url clone_fail_world))) = None" by force
  from exit_status_policy [of "''-github.com/owner/repo''" clone_fail_world] dash
  have s4: "exit_status (main ''-github.com/owner/repo'' clone_fail_world) = 2
      \<and> written (main ''-github.com/owner/repo'' clone_fail_world) = None" by blast
  from exit_status_policy [of "''-h''" clone_fail_world] usage
  have s5: "exit_status (main ''-h'' clone_fail_world) = 0
      \<and> written (main ''-h'' clone_fail_world) = None" by blast
  from pos t0 sample_url_valid clone_fail_init bad ipv6 fails raises dash usage err s0 s1 s2 s3 s4 s5
  show ?thesis by simp
qed

text \<open>
  The claim as stated fails: the clone times out, so the acquisition has failed, and the
  exit status is 0.
\<close>

theorem exit_status_counterexample:
  "valid_repo_url sample_url
   \<and> git_clone_out clone_timeout_world = Inl (Exc TimeoutExpired ''Command git timed out after 300 seconds'')
   \<and> map_option errors (written (main sample_url clone_timeout_world))
       = Some [''Repository cloning timed out'']
   \<and> exit_status (main sample_url clone_timeout_world) = 0"
proof -
  have init: "analyzer_init sample_url clone_timeout_world = Inr (sample_state clone_timeout_world)"
    by (rule sample_init) (simp add: clone_timeout_world_def empty_world_def)
  have run: "run_analysis clone_timeout_world (sample_state clone_timeout_world) =
     add_error ''Repository cloning timed out''
       ((sample_state clone_timeout_world)\<lparr> temp_dirs := {''/tmp/owner_repo0''} \<rparr>)"
    by (simp add: run_analysis_def clone_repository_def clone_timeout_world_def empty_world_def
        cleanup_def clone_error_def sample_state_def Let_def)
  have out: "git_clone_out clone_timeout_world
      = Inl (Exc TimeoutExpired ''Command git timed out after 300 seconds'')"
    by (simp add: clone_timeout_world_def)
  have err: "map_option errors (written (main sample_url clone_timeout_world))
       = Some [''Repository cloning timed out'']"
    by (simp add: main_of_state [OF sample_url_parsed sample_url_valid init] run)
      (simp add: add_error_def sample_state_def initial_report_def)
  have status: "exit_status (main sample_url clone_timeout_world) = 0"
    by (simp add: main_of_state [OF sample_url_parsed sample_url_valid init])
  from sample_url_valid out err status show ?thesis by simp
qed

text \<open>
  Claim C1 fails on the code. When git fails after \<^verbatim>\<open>mkdtemp\<close> made the directory,
  \<^verbatim>\<open>clone_repository\<close> returns \<^verbatim>\<open>None\<close>, so the \<^verbatim>\<open>finally\<close> block of \<^verbatim>\<open>run_analysis\<close> has no
  path to remove: the directory is still there when \<^verbatim>\<open>run_analysis\<close> returns and when
  \<^verbatim>\<open>main\<close> ends.
\<close>

theorem workspace_left_after_failed_clone:
  "analyzer_init sample_url clone_fail_world = Inr (sample_state clone_fail_world)
   \<and> temp_dirs (sample_state clone_fail_world) = {}
   \<and> mkdtemp_out clone_fail_world (local_path (sample_state clone_fail_world)) = Inr ''/tmp/owner_repo0''
   \<and> returncode (projr (git_clone_out clone_fail_world)) = 128
   \<and> temp_dirs (run_analysis clone_fail_world (sample_state clone_fail_world)) = {''/tmp/owner_repo0''}
   \<and> left_behind (main sample_url clone_fail_world) = {''/tmp/owner_repo0''}"
proof -
  have world: "mkdtemp_out clone_fail_world (local_path (sample_state clone_fail_world))
        = Inr ''/tmp/owner_repo0''
      \<and> returncode (projr (git_clone_out clone_fail_world)) = 128"
    by (simp add: clone_fail_world_def empty_world_def sample_state_def)
  show ?thesis
    using world
    by (simp add: main_of_state [OF sample_url_parsed sample_url_valid clone_fail_init]
        clone_fail_init clone_fail_run add_error_def) (simp add: sample_state_def)
qed

text \<open>The sibling path: after a clone that succeeded the directory is removed.\<close>

lemma workspace_removed_after_clone:
  assumes "mkdtemp_out w (local_path st) = Inr d" and "d \<noteq> []" and "git_clone_out w = Inr cp"
    and "returncode cp = 0" and "rmtree_out w = Inr ()"
  shows "d \<notin> temp_dirs (run_analysis w st)"
proof -
  obtain exc rep where ra: "run_analyzers w (analysis_results st) = (exc, rep)"
    by (cases "run_analyzers w (analysis_results st)")
  show ?thesis
    using assms ra
    by (cases exc) (simp_all add: run_analysis_def clone_repository_ok cleanup_def add_error_def)
qed

text \<open>The sibling analyzers keep their scores between 0 and 100.\<close>

lemma flag_loop_score:
  assumes "0 \<le> points" and "flag_loop w points fs r = (x, r')"
  shows "presence_result.score r \<le> presence_result.score r'"
  using assms(2)
proof (induction fs arbitrary: r)
  case Nil
  then show ?case by simp
next
  case (Cons kf fs)
  obtain key file_path where kf: "kf = (key, file_path)" by (cases kf)
  show ?case
  proof (cases "exists_out w file_path")
    case (Inl e)
    with Cons.prems kf show ?thesis by simp
  next
    case (Inr b)
    let ?r = "r\<lparr> flags := (flags r)(key \<mapsto> b),
                 presence_result.score := presence_result.score r + (if b then points else 0) \<rparr>"
    from Cons.prems kf Inr have "flag_loop w points fs ?r = (x, r')" by simp
    from Cons.IH [OF this] assms(1) show ?thesis by (simp split: if_splits)
  qed
qed

lemma dependencies_score_range:
  assumes "analyze_dependencies w = Inr p"
  shows "0 \<le> presence_result.score p \<and> presence_result.score p \<le> 100"
proof -
  obtain x r1 where loop: "flag_loop w 15 dependency_files dep_init = (x, r1)"
    by (cases "flag_loop w 15 dependency_files dep_init")
  from flag_loop_score [OF _ loop] have "0 \<le> presence_result.score r1"
    by (simp add: dep_init_def)
  with assms loop show ?thesis
    by (auto simp: analyze_dependencies_def dep_try_def Let_def
        split: option.splits sum.splits if_splits)
qed

text \<open>
  Claim C2 fails on the code. \<^verbatim>\<open>analyze_security\<close> adds 15 for every workflow file that
  mentions a keyword and never caps the sum: two policy files and three workflow files that
  mention both keywords give 130, which is also the security score of the aggregate.
\<close>

theorem security_score_exceeds_100:
  "presence_result.score (projr (analyze_security workflow_world)) = 130
   \<and> security_score (the (aggregate (snd (run_analyzers workflow_world
        (initial_report sample_url workflow_world))))) = 130"
proof -
  have sec: "\<exists>s. analyze_security workflow_world = Inr s \<and> presence_result.score s = 130"
    by (simp add: analyze_security_def sec_try_def sec_init_def security_files_def workflow_world_def
        empty_world_def base_security_def lower_def lower_char_def upper_letters_def lower_letters_def Let_def)
  then obtain s where s: "analyze_security workflow_world = Inr s" "presence_result.score s = 130"
    by blast
  obtain f r e d p where res:
    "run_flake8_analysis workflow_world = Inr f" "run_radon_analysis workflow_world = Inr r"
    "run_eslint_analysis workflow_world = Inr e" "analyze_documentation workflow_world = Inr d"
    "analyze_dependencies workflow_world = Inr p"
    using flake8_returns radon_returns eslint_returns documentation_returns dependencies_returns
    by metis
  show ?thesis
    by (simp add: s run_analyzers_eq [OF res s(1)] calculate_aggregate_scores_def Let_def)
qed

section \<open>The code quality score\<close>

lemma aggregate_code_score_mean:
  "aggregate_code_score f e c = positive_weighted_mean [(0.4, f), (0.4, e), (0.2, c)]"
  by (simp add: aggregate_code_score_def positive_weighted_mean_def Let_def)

lemma aggregate_code_score_range:
  assumes "0 \<le> f" "f \<le> 100" "0 \<le> e" "e \<le> 100" "0 \<le> c" "c \<le> 100"
  shows "0 \<le> aggregate_code_score f e c \<and> aggregate_code_score f e c \<le> 100"
proof -
  have le: "real_of_int f \<le> 100" "real_of_int e \<le> 100" "real_of_int c \<le> 100"
    and ge: "0 \<le> real_of_int f" "0 \<le> real_of_int e" "0 \<le> real_of_int c"
    using assms by simp_all
  show ?thesis
    unfolding aggregate_code_score_def Let_def
    using le ge by (auto simp: field_simps)
qed

lemma round2_range:
  assumes "0 \<le> x" and "x \<le> 100"
  shows "0 \<le> round2 x \<and> round2 x \<le> 100"
proof -
  have "round (0::real) \<le> round (x * 100)" using assms by (intro round_mono) simp
  moreover have "round (x * 100) \<le> round (10000::real)" using assms by (intro round_mono) simp
  ultimately have "0 \<le> round (x * 100) \<and> round (x * 100) \<le> 10000" by simp
  then have "0 \<le> real_of_int (round (x * 100)) \<and> real_of_int (round (x * 100)) \<le> 10000"
    by simp
  then show ?thesis by (simp add: round2_def)
qed

lemma round2_50: "round2 50 = 50"
  by (simp add: round2_def)

lemma flake8_score_bounds:
  assumes "run_flake8_analysis w = Inr r"
  shows "0 \<le> lint_result.score r \<and> lint_result.score r \<le> 100"
  using assms
  by (auto simp: run_flake8_analysis_def flake8_try_def lint_init_def Let_def
      flake8_policy_bounds order_trans [OF flake8_policy_bounds(2)]
      split: sum.splits if_splits)

lemma eslint_score_bounds:
  assumes "run_eslint_analysis w = Inr r"
  shows "0 \<le> lint_result.score r \<and> lint_result.score r \<le> 100"
  using assms
  by (auto simp: run_eslint_analysis_def eslint_try_def lint_init_def Let_def
      eslint_policy_bounds order_trans [OF eslint_policy_bounds(2)]
      split: sum.splits if_splits)

lemma radon_score_bounds:
  assumes "run_radon_analysis w = Inr r"
  shows "0 \<le> complexity_score r \<and> complexity_score r \<le> 100"
  using assms
  by (auto simp: run_radon_analysis_def radon_try_def radon_init_def Let_def
      complexity_band_bounds order_trans [OF complexity_band_bounds(2)]
      split: sum.splits if_splits)

lemma flake8_zero_iff:
  assumes "run_flake8_analysis w = Inr f"
  shows "lint_result.score f = 0 \<longleftrightarrow> rglob_out w ''*.py'' = Inr [] \<or> (\<exists>x. flake8_try w = Inl x)"
proof (cases "flake8_try w")
  case (Inl x)
  with assms show ?thesis by (auto simp: run_flake8_analysis_def lint_init_def split: if_splits)
next
  case (Inr r)
  then have "r = f" using assms by (simp add: run_flake8_analysis_def)
  with Inr show ?thesis
    by (auto simp: flake8_try_def lint_init_def Let_def flake8_policy_bounds
        split: sum.splits if_splits)
qed

lemma radon_zero_iff:
  assumes "run_radon_analysis w = Inr r"
  shows "complexity_score r \<noteq> 0 \<longleftrightarrow>
     (\<exists>fs res data. rglob_out w ''*.py'' = Inr fs \<and> fs \<noteq> [] \<and> radon_out w = Inr res
        \<and> returncode res = 0 \<and> radon_json w (stdout res) = Inr data \<and> concat data \<noteq> [])"
proof (cases "radon_try w")
  case (Inl x)
  with assms have "complexity_score r = 0"
    by (auto simp: run_radon_analysis_def radon_init_def split: if_splits)
  moreover from Inl have "\<not> (\<exists>fs res data. rglob_out w ''*.py'' = Inr fs \<and> fs \<noteq> [] \<and> radon_out w = Inr res
        \<and> returncode res = 0 \<and> radon_json w (stdout res) = Inr data \<and> concat data \<noteq> [])"
    by (auto simp: radon_try_def Let_def split: sum.splits if_splits)
  ultimately show ?thesis by blast
next
  case (Inr r')
  then have "r' = r" using assms by (simp add: run_radon_analysis_def)
  with Inr show ?thesis
    by (auto simp: radon_try_def radon_init_def Let_def complexity_band_bounds
        split: sum.splits if_splits)
qed

lemma eslint_zero_iff:
  assumes "run_eslint_analysis w = Inr e"
  shows "lint_result.score e = 0 \<longleftrightarrow> source_files w = Inr [] \<or> (\<exists>x. eslint_try w = Inl x)"
proof (cases "eslint_try w")
  case (Inl x)
  with assms show ?thesis by (auto simp: run_eslint_analysis_def lint_init_def split: if_splits)
next
  case (Inr r)
  then have "r = e" using assms by (simp add: run_eslint_analysis_def)
  with Inr show ?thesis
    by (auto simp: eslint_try_def lint_init_def Let_def eslint_policy_bounds
        split: sum.splits if_splits)
qed

text \<open>The three outcomes of ESLint that are no measurement and still score.\<close>

lemma eslint_no_config:
  assumes "source_files w = Inr fs" and "fs \<noteq> []" and "any_exists w eslint_config = Inr False"
  shows "run_eslint_analysis w =
     Inr (lint_init\<lparr> lint_result.details := [''message'' \<mapsto> DStr ''No ESLint configuration found''],
                     lint_result.score := 40 \<rparr>)"
  using assms by (simp add: run_eslint_analysis_def eslint_try_def)

lemma eslint_execution_failed:
  assumes "source_files w = Inr fs" and "fs \<noteq> []" and "any_exists w eslint_config = Inr True"
    and "eslint_out w = Inr res" and "returncode res \<noteq> 0" and "returncode res \<noteq> 1"
  shows "run_eslint_analysis w =
     Inr (lint_init\<lparr> lint_result.details := [''error'' \<mapsto> DStr ''ESLint execution failed''],
                     lint_result.score := 20 \<rparr>)"
  using assms by (simp add: run_eslint_analysis_def eslint_try_def)

lemma eslint_unparseable:
  assumes "source_files w = Inr fs" and "fs \<noteq> []" and "any_exists w eslint_config = Inr True"
    and "eslint_out w = Inr res" and "returncode res = 0 \<or> returncode res = 1"
    and "stdout res \<noteq> []" and "eslint_json w (stdout res) = Inl x" and "exc_cls x = JSONDecodeError"
  shows "run_eslint_analysis w =
     Inr (lint_init\<lparr> lint_result.details := [''error'' \<mapsto> DStr ''Failed to parse ESLint output''],
                     lint_result.score := 30 \<rparr>)"
  using assms by (auto simp: run_eslint_analysis_def eslint_try_def)

text \<open>
  Claim C3, as the code has it. The code quality score is the weighted mean, rounded to two
  places, of the flake8, ESLint and radon scores with weights 0.4, 0.4 and 0.2, where an
  analyzer has weight zero exactly when its score is 0; the division is by a positive total
  weight, the result lies in 0..100, and it is the default 50 when all three scores are 0.
  The score of flake8 is 0 exactly when there are no Python files or its run raised (the
  timeout included), that of radon whenever it did not measure at least one block, that of
  ESLint exactly when there are no JS/TS files or its run raised. ESLint keeps a positive
  score, and so its weight 0.4, when no configuration is found (40), when its output cannot
  be parsed (30) and when its execution failed (20).
\<close>

theorem composite_code_quality:
  "\<exists>f r e rep' a.
      run_flake8_analysis w = Inr f \<and> run_radon_analysis w = Inr r \<and> run_eslint_analysis w = Inr e
      \<and> run_analyzers w rep = (None, rep') \<and> aggregate rep' = Some a
      \<and> code_quality_score a =
          round2 (positive_weighted_mean
            [(0.4, lint_result.score f), (0.4, lint_result.score e), (0.2, complexity_score r)])
      \<and> 0 \<le> code_quality_score a \<and> code_quality_score a \<le> 100
      \<and> (lint_result.score f = 0 \<and> lint_result.score e = 0 \<and> complexity_score r = 0
            \<longrightarrow> code_quality_score a = 50)
      \<and> (lint_result.score f = 0 \<longleftrightarrow>
            rglob_out w ''*.py'' = Inr [] \<or> (\<exists>x. flake8_try w = Inl x))
      \<and> (complexity_score r \<noteq> 0 \<longleftrightarrow>
            (\<exists>fs res data. rglob_out w ''*.py'' = Inr fs \<and> fs \<noteq> [] \<and> radon_out w = Inr res
               \<and> returncode res = 0 \<and> radon_json w (stdout res) = Inr data \<and> concat data \<noteq> []))
      \<and> (lint_result.score e = 0 \<longleftrightarrow>
            source_files w = Inr [] \<or> (\<exists>x. eslint_try w = Inl x))
      \<and> ((\<exists>fs. source_files w = Inr fs \<and> fs \<noteq> [] \<and> any_exists w eslint_config = Inr False)
            \<longrightarrow> lint_result.score e = 40)
      \<and> ((\<exists>fs res x. source_files w = Inr fs \<and> fs \<noteq> [] \<and> any_exists w eslint_config = Inr True
               \<and> eslint_out w = Inr res \<and> (returncode res = 0 \<or> returncode res = 1)
               \<and> stdout res \<noteq> [] \<and> eslint_json w (stdout res) = Inl x
               \<and> exc_cls x = JSONDecodeError)
            \<longrightarrow> lint_result.score e = 30)
      \<and> ((\<exists>fs res. source_files w = Inr fs \<and> fs \<noteq> [] \<and> any_exists w eslint_config = Inr True
               \<and> eslint_out w = Inr res \<and> returncode res \<noteq> 0 \<and> returncode res \<noteq> 1)
            \<longrightarrow> lint_result.score e = 20)"
proof -
  obtain f r e d p s where res:
    "run_flake8_analysis w = Inr f" "run_radon_analysis w = Inr r" "run_eslint_analysis w = Inr e"
    "analyze_documentation w = Inr d" "analyze_dependencies w = Inr p" "analyze_security w = Inr s"
    using flake8_returns radon_returns eslint_returns documentation_returns dependencies_returns
      security_returns by metis
  let ?rep = "calculate_aggregate_scores
      (rep\<lparr> cq_flake8 := Some f, complexity := Some r, cq_eslint := Some e,
            documentation := Some d, dependencies := Some p, security := Some s \<rparr>)"
  let ?q = "round2 (aggregate_code_score (lint_result.score f) (lint_result.score e) (complexity_score r))"
  have run: "run_analyzers w rep = (None, ?rep)"
    by (rule run_analyzers_eq [OF res])
  have agg: "\<exists>a. aggregate ?rep = Some a \<and> code_quality_score a = ?q"
    by (simp add: calculate_aggregate_scores_def Let_def)
  then obtain a where a: "aggregate ?rep = Some a" "code_quality_score a = ?q" by blast
  have mean: "code_quality_score a =
      round2 (positive_weighted_mean
        [(0.4, lint_result.score f), (0.4, lint_result.score e), (0.2, complexity_score r)])"
    using a(2) by (simp add: aggregate_code_score_mean)
  have range: "0 \<le> code_quality_score a \<and> code_quality_score a \<le> 100"
    unfolding a(2)
    using flake8_score_bounds [OF res(1)] eslint_score_bounds [OF res(3)] radon_score_bounds [OF res(2)]
    by (intro round2_range) (simp_all add: aggregate_code_score_range)
  have dflt: "lint_result.score f = 0 \<and> lint_result.score e = 0 \<and> complexity_score r = 0
      \<longrightarrow> code_quality_score a = 50"
    by (simp add: a(2) aggregate_code_score_def round2_50)
  have e40: "(\<exists>fs. source_files w = Inr fs \<and> fs \<noteq> [] \<and> any_exists w eslint_config = Inr False)
      \<longrightarrow> lint_result.score e = 40"
    using eslint_no_config [of w] res(3) by (auto simp: lint_init_def)
  have e30: "(\<exists>fs res x. source_files w = Inr fs \<and> fs \<noteq> [] \<and> any_exists w eslint_config = Inr True
               \<and> eslint_out w = Inr res \<and> (returncode res = 0 \<or> returncode res = 1)
               \<and> stdout res \<noteq> [] \<and> eslint_json w (stdout res) = Inl x
               \<and> exc_cls x = JSONDecodeError)
      \<longrightarrow> lint_result.score e = 30"
  proof
    assume "\<exists>fs res x. source_files w = Inr fs \<and> fs \<noteq> [] \<and> any_exists w eslint_config = Inr True
               \<and> eslint_out w = Inr res \<and> (returncode res = 0 \<or> returncode res = 1)
               \<and> stdout res \<noteq> [] \<and> eslint_json w (stdout res) = Inl x
               \<and> exc_cls x = JSONDecodeError"
    then obtain fs res' x where h: "source_files w = Inr fs" "fs \<noteq> []"
      "any_exists w eslint_config = Inr True" "eslint_out w = Inr res'"
      "returncode res' = 0 \<or> returncode res' = 1" "stdout res' \<noteq> []"
      "eslint_json w (stdout res') = Inl x" "exc_cls x = JSONDecodeError"
      by blast
    from eslint_unparseable [OF h] res(3) show "lint_result.score e = 30"
      by (auto simp: lint_init_def)
  qed
  have e20: "(\<exists>fs res. source_files w = Inr fs \<and> fs \<noteq> [] \<and> any_exists w eslint_config = Inr True
               \<and> eslint_out w = Inr res \<and> returncode res \<noteq> 0 \<and> returncode res \<noteq> 1)
      \<longrightarrow> lint_result.score e = 20"
  proof
    assume "\<exists>fs res. source_files w = Inr fs \<and> fs \<noteq> [] \<and> any_exists w eslint_config = Inr True
               \<and> eslint_out w = Inr res \<and> returncode res \<noteq> 0 \<and> returncode res \<noteq> 1"
    then obtain fs res' where h: "source_files w = Inr fs" "fs \<noteq> []"
      "any_exists w eslint_config = Inr True" "eslint_out w = Inr res'"
      "returncode res' \<noteq> 0" "returncode res' \<noteq> 1"
      by blast
    from eslint_execution_failed [OF h] res(3) show "lint_result.score e = 20"
      by (auto simp: lint_init_def)
  qed
  from range have lo: "0 \<le> code_quality_score a" and hi: "code_quality_score a \<le> 100"
    by simp_all
  show ?thesis
  proof (intro exI conjI)
    show "run_flake8_analysis w = Inr f" by (rule res(1))
    show "run_radon_analysis w = Inr r" by (rule res(2))
    show "run_eslint_analysis w = Inr e" by (rule res(3))
    show "run_analyzers w rep = (None, ?rep)" by (rule run)
    show "aggregate ?rep = Some a" by (rule a(1))
  qed (fact mean lo hi dflt flake8_zero_iff [OF res(1)] radon_zero_iff [OF res(2)]
        eslint_zero_iff [OF res(3)] e40 e30 e20)+
qed

lemma code_quality_of:
  assumes "run_flake8_analysis w = Inr f" and "run_radon_analysis w = Inr r"
    and "run_eslint_analysis w = Inr e"
  shows "code_quality_score (the (aggregate (snd (run_analyzers w rep)))) =
           round2 (aggregate_code_score (lint_result.score f) (lint_result.score e) (complexity_score r))"
proof -
  obtain d p s where res:
    "analyze_documentation w = Inr d" "analyze_dependencies w = Inr p" "analyze_security w = Inr s"
    using documentation_returns dependencies_returns security_returns by metis
  show ?thesis
    by (simp add: run_analyzers_eq [OF assms res] calculate_aggregate_scores_def Let_def)
qed

lemma no_python_flake8:
  assumes "rglob_out w ''*.py'' = Inr []"
  shows "run_flake8_analysis w =
     Inr (lint_init\<lparr> lint_result.details := [''message'' \<mapsto> DStr ''No Python files found''] \<rparr>)"
  using assms by (simp add: run_flake8_analysis_def flake8_try_def)

lemma no_python_radon:
  assumes "rglob_out w ''*.py'' = Inr []"
  shows "run_radon_analysis w = Inr radon_init"
  using assms by (simp add: run_radon_analysis_def radon_try_def)

lemma broken_sources:
  "rglob_out eslint_broken_world ''*.py'' = Inr []"
  "source_files eslint_broken_world = Inr [''index.js'']"
  "any_exists eslint_broken_world eslint_config = Inr True"
  "eslint_out eslint_broken_world = Inr \<lparr> returncode = 2, stdout = [], stderr = ''Oops! Something went wrong'' \<rparr>"
  by (simp_all add: eslint_broken_world_def empty_world_def source_files_def eslint_config_def)

lemma no_config_sources:
  "rglob_out no_config_world ''*.py'' = Inr []"
  "source_files no_config_world = Inr [''main.ts'']"
  "any_exists no_config_world eslint_config = Inr False"
  by (simp_all add: no_config_world_def empty_world_def source_files_def eslint_config_def)

lemma failing_sources:
  "source_files failing_world = Inr [''index.js'']"
  "any_exists failing_world eslint_config = Inr True"
  "eslint_out failing_world = Inr \<lparr> returncode = 1, stdout = ''Oops'', stderr = [] \<rparr>"
  "eslint_json failing_world ''Oops'' = Inl (Exc JSONDecodeError ''Expecting value'')"
  by (simp_all add: failing_world_def empty_world_def source_files_def eslint_config_def)

text \<open>
  The claim as stated fails: flake8 and radon have no Python files and ESLint reports an
  error, so no analyzer has a signal, and the code quality score is 20, not the default 50:
  the failed ESLint run keeps its weight.
\<close>

theorem composite_default_counterexample:
  "lint_result.details (projr (run_flake8_analysis eslint_broken_world)) ''message''
     = Some (DStr ''No Python files found'')
   \<and> run_radon_analysis eslint_broken_world = Inr radon_init
   \<and> lint_result.details (projr (run_eslint_analysis eslint_broken_world)) ''error''
     = Some (DStr ''ESLint execution failed'')
   \<and> code_quality_score (the (aggregate (snd (run_analyzers eslint_broken_world
        (initial_report sample_url eslint_broken_world))))) = 20"
proof -
  note f = no_python_flake8 [OF broken_sources(1)]
  note r = no_python_radon [OF broken_sources(1)]
  have e: "run_eslint_analysis eslint_broken_world =
     Inr (lint_init\<lparr> lint_result.details := [''error'' \<mapsto> DStr ''ESLint execution failed''],
                     lint_result.score := 20 \<rparr>)"
    by (rule eslint_execution_failed [OF broken_sources(2) _ broken_sources(3,4)]) simp_all
  show ?thesis
    by (simp add: code_quality_of [OF f r e] f r e lint_init_def radon_init_def
        aggregate_code_score_def round2_def)
qed

theorem composite_code_quality_witness:
  "code_quality_score (the (aggregate (snd (run_analyzers ci_world
      (initial_report sample_url ci_world))))) = 50
   \<and> source_files no_config_world = Inr [''main.ts''] \<and> [''main.ts''] \<noteq> []
   \<and> any_exists no_config_world eslint_config = Inr False
   \<and> lint_result.score (projr (run_eslint_analysis no_config_world)) = 40
   \<and> code_quality_score (the (aggregate (snd (run_analyzers no_config_world
        (initial_report sample_url no_config_world))))) = 40
   \<and> source_files failing_world = Inr [''index.js'']
   \<and> any_exists failing_world eslint_config = Inr True
   \<and> eslint_json failing_world ''Oops'' = Inl (Exc JSONDecodeError ''Expecting value'')
   \<and> lint_result.score (projr (run_eslint_analysis failing_world)) = 30
   \<and> code_quality_score (the (aggregate (snd (run_analyzers failing_world
        (initial_report sample_url failing_world))))) = 30
   \<and> source_files eslint_broken_world = Inr [''index.js'']
   \<and> any_exists eslint_broken_world eslint_config = Inr True
   \<and> returncode (projr (eslint_out eslint_broken_world)) = 2
   \<and> lint_result.score (projr (run_eslint_analysis eslint_broken_world)) = 20"
proof -
  have use: "\<exists>f r e a.
      run_flake8_analysis W = Inr f \<and> run_radon_analysis W = Inr r \<and> run_eslint_analysis W = Inr e
      \<and> aggregate (snd (run_analyzers W R)) = Some a
      \<and> code_quality_score a =
          round2 (positive_weighted_mean
            [(0.4, lint_result.score f), (0.4, lint_result.score e), (0.2, complexity_score r)])
      \<and> (lint_result.score f = 0 \<and> lint_result.score e = 0 \<and> complexity_score r = 0
            \<longrightarrow> code_quality_score a = 50)
      \<and> ((\<exists>fs. source_files W = Inr fs \<and> fs \<noteq> [] \<and> any_exists W eslint_config = Inr False)
            \<longrightarrow> lint_result.score e = 40)
      \<and> ((\<exists>fs res x. source_files W = Inr fs \<and> fs \<noteq> [] \<and> any_exists W eslint_config = Inr True
               \<and> eslint_out W = Inr res \<and> (returncode res = 0 \<or> returncode res = 1)
               \<and> stdout res \<noteq> [] \<and> eslint_json W (stdout res) = Inl x
               \<and> exc_cls x = JSONDecodeError)
            \<longrightarrow> lint_result.score e = 30)
      \<and> ((\<exists>fs res. source_files W = Inr fs \<and> fs \<noteq> [] \<and> any_exists W eslint_config = Inr True
               \<and> eslint_out W = Inr res \<and> returncode res \<noteq> 0 \<and> returncode res \<noteq> 1)
            \<longrightarrow> lint_result.score e = 20)" for W R
    using composite_code_quality [of W R]
    by (elim exE conjE) (intro exI conjI, assumption+, simp, assumption+)
  have ci: "code_quality_score (the (aggregate (snd (run_analyzers ci_world
      (initial_report sample_url ci_world))))) = 50"
    using use [of ci_world "initial_report sample_url ci_world"]
      bare_flake8 [OF bare_ci_world] bare_radon [OF bare_ci_world] bare_eslint [OF bare_ci_world]
    by (auto simp: lint_init_def radon_init_def)
  have e40: "lint_result.score (projr (run_eslint_analysis no_config_world)) = 40"
    using use [of no_config_world "initial_report sample_url no_config_world"] no_config_sources by auto
  have c40: "code_quality_score (the (aggregate (snd (run_analyzers no_config_world
        (initial_report sample_url no_config_world))))) = 40"
    using use [of no_config_world "initial_report sample_url no_config_world"]
      e40 no_python_flake8 [OF no_config_sources(1)] no_python_radon [OF no_config_sources(1)]
    by (auto simp: lint_init_def radon_init_def positive_weighted_mean_def round2_def)
  have e30: "lint_result.score (projr (run_eslint_analysis failing_world)) = 30"
    using use [of failing_world "initial_report sample_url failing_world"] failing_sources by auto
  have c30: "code_quality_score (the (aggregate (snd (run_analyzers failing_world
        (initial_report sample_url failing_world))))) = 30"
    using use [of failing_world "initial_report sample_url failing_world"]
      e30 failing_flake8 failing_radon
    by (auto simp: lint_init_def radon_init_def positive_weighted_mean_def round2_def)
  have e20: "lint_result.score (projr (run_eslint_analysis eslint_broken_world)) = 20"
    using use [of eslint_broken_world "initial_report sample_url eslint_broken_world"] broken_sources by auto
  show ?thesis
    using ci e40 c40 e30 c30 e20 no_config_sources failing_sources broken_sources by simp
qed

section \<open>A README with three sections\<close>

lemma documentation_of_readme:
  assumes "read_readme w readme_files = Inr (Some content)" and "content \<noteq> []"
  shows "analyze_documentation w = Inr (score_readme content)"
  using assms by (simp add: analyze_documentation_def doc_try_def)

text \<open>
  Claim C8. For a README with three of the four sections (installation, usage,
  contributing, license), one fenced code block and an average of 12 words per sentence,
  the readability score is 90, the top band, and the documentation score is the base 40 plus
  the bonuses of the sections found plus 15 for the code example plus the readability
  adjustment (90 - 50) / 2 = 20, cut at 100; with three sections the sum is at least 105,
  so the score is 100.
\<close>

theorem readme_three_sections:
  fixes installation usage contributing license :: bool
  assumes "read_readme w readme_files = Inr (Some content)" and "content \<noteq> []"
    and "installation = heading_mentions ''instal'' (lower content)"
    and "usage = (heading_mentions ''usage'' (lower content) \<or> heading_mentions ''use'' (lower content))"
    and "contributing = heading_mentions ''contribut'' (lower content)"
    and "license = heading_mentions ''licens'' (lower content)"
    and "length (filter id [installation, usage, contributing, license]) = 3"
    and "count_fenced content = 1"
    and "real (words_of content) / real (max 1 (sentences_of content)) = 12"
  shows "\<exists>d. analyze_documentation w = Inr d
           \<and> readability_score d = 90 \<and> has_code_examples d
           \<and> doc_result.score d =
               min 100 (real_of_int (40 + (if installation then 15 else 0) + (if usage then 10 else 0)
                                     + (if contributing then 10 else 0) + (if license then 10 else 0)
                                     + 15)
                        + (90 - 50) / 2)
           \<and> doc_result.score d = 100"
proof -
  let ?d = "score_readme content"
  define base :: int where
    "base = 40 + (if installation then 15 else 0) + (if usage then 10 else 0)
               + (if contributing then 10 else 0) + (if license then 10 else 0) + 15"
  have doc: "analyze_documentation w = Inr ?d"
    by (rule documentation_of_readme [OF assms(1,2)])
  have band: "readability_score ?d = 90"
    using assms(9)
    by (simp add: score_readme_def Let_def doc_init_def readability_band_def split del: if_split)
  have code: "has_code_examples ?d"
    using assms(8) by (simp add: score_readme_def Let_def doc_init_def split del: if_split)
  have score: "doc_result.score ?d = max 0 (min 100 (real_of_int base + (90 - 50) / 2))"
    unfolding base_def
    using assms(3-6,8,9)
    by (simp add: score_readme_def Let_def doc_init_def readability_band_def split del: if_split)
  have three: "85 \<le> base"
    unfolding base_def
    using assms(7) by (cases installation; cases usage; cases contributing; cases license) simp_all
  then have big: "105 \<le> real_of_int base + (90 - 50) / 2"
    by simp
  from score big have s1: "doc_result.score ?d = min 100 (real_of_int base + (90 - 50) / 2)"
    by simp
  from s1 big have s2: "doc_result.score ?d = 100"
    by simp
  from doc band code s1 s2 show ?thesis
    unfolding base_def by blast
qed

lemma readme_text_facts:
  "read_readme readme_world readme_files = Inr (Some readme_text)"
  "readme_text \<noteq> []"
  "heading_mentions ''instal'' (lower readme_text)"
  "heading_mentions ''usage'' (lower readme_text) \<or> heading_mentions ''use'' (lower readme_text)"
  "\<not> heading_mentions ''contribut'' (lower readme_text)"
  "heading_mentions ''licens'' (lower readme_text)"
  "count_fenced readme_text = 1"
  "words_of readme_text = 12"
  "sentences_of readme_text = 1"
  by (simp_all add: readme_world_def empty_world_def readme_files_def readme_text_def
      heading_mentions_def lower_def lower_char_def upper_letters_def lower_letters_def count_fenced.simps words_of_def sentences_of_def
      is_space_def)

theorem readme_three_sections_witness:
  "read_readme readme_world readme_files = Inr (Some readme_text) \<and> readme_text \<noteq> []
   \<and> length (filter id [heading_mentions ''instal'' (lower readme_text),
                          heading_mentions ''usage'' (lower readme_text)
                            \<or> heading_mentions ''use'' (lower readme_text),
                          heading_mentions ''contribut'' (lower readme_text),
                          heading_mentions ''licens'' (lower readme_text)]) = 3
   \<and> count_fenced readme_text = 1
   \<and> real (words_of readme_text) / real (max 1 (sentences_of readme_text)) = 12
   \<and> readability_score (projr (analyze_documentation readme_world)) = 90
   \<and> doc_result.score (projr (analyze_documentation readme_world)) = 100"
proof -
  have three: "length (filter id [heading_mentions ''instal'' (lower readme_text),
                          heading_mentions ''usage'' (lower readme_text)
                            \<or> heading_mentions ''use'' (lower readme_text),
                          heading_mentions ''contribut'' (lower readme_text),
                          heading_mentions ''licens'' (lower readme_text)]) = 3"
    using readme_text_facts(3-6) by simp
  have avg: "real (words_of readme_text) / real (max 1 (sentences_of readme_text)) = 12"
    by (simp add: readme_text_facts(8,9))
  from readme_three_sections [OF readme_text_facts(1,2) refl refl refl refl three
      readme_text_facts(7) avg]
  have "readability_score (projr (analyze_documentation readme_world)) = 90
      \<and> doc_result.score (projr (analyze_documentation readme_world)) = 100"
    by force
  with readme_text_facts(1,2,7) three avg show ?thesis by blast
qed

end
